theory Spec2Isabelle
  imports Complex_Main "HOL-Library.Log_Nat"
begin

section \<open>JavaScript values carried by a frame\<close>

datatype js_error = SyntaxError | TypeError

text \<open>
  The fields of an inbound frame come out of \<^verbatim>\<open>JSON.parse\<close>: an absent field
  (\<^verbatim>\<open>undefined\<close>), \<^verbatim>\<open>null\<close>, a boolean, a number, a string, an array or an object
  with its own properties in order. A number is kept as the text \<^verbatim>\<open>String(n)\<close> gives
  for it (\<open>0\<close> for both zeros; a parsed number is never \<^verbatim>\<open>NaN\<close>): two parsed numbers
  are \<^verbatim>\<open>===\<close> exactly when these texts are equal.
\<close>

datatype jsval = JUndefined | JNull | JBool bool | JNum string | JStr string
  | JArr "jsval list" | JObj "(string \<times> jsval) list"

text \<open>What \<^verbatim>\<open>if (v)\<close>, \<^verbatim>\<open>v && ...\<close> and \<^verbatim>\<open>v || ...\<close> test.\<close>

fun truthy :: "jsval \<Rightarrow> bool" where
  "truthy JUndefined = False"
| "truthy JNull = False"
| "truthy (JBool b) = b"
| "truthy (JNum s) = (s \<noteq> ''0'')"
| "truthy (JStr s) = (s \<noteq> [])"
| "truthy (JArr xs) = True"
| "truthy (JObj kvs) = True"

fun primitive :: "jsval \<Rightarrow> bool" where
  "primitive (JArr xs) = False"
| "primitive (JObj kvs) = False"
| "primitive v = True"

text \<open>
  The conversion to a string that a template literal \<^verbatim>\<open>`${v}`\<close> and a property key
  \<^verbatim>\<open>obj[v]\<close> apply. An array joins its elements with commas (\<^verbatim>\<open>null\<close> gives the
  empty string). An object is converted by its \<^verbatim>\<open>toString\<close> method: a parsed object
  with a property of its own under that name has a value there that cannot be called,
  and \<^verbatim>\<open>valueOf\<close> (its own, or the inherited one, which returns the object) does not
  help, so the conversion throws a TypeError; any other object gives
  \<open>[object Object]\<close>.
\<close>

fun toString :: "jsval \<Rightarrow> js_error + string"
  and join :: "jsval list \<Rightarrow> js_error + string"
  and element :: "jsval \<Rightarrow> js_error + string"
where
  "toString JUndefined = Inr ''undefined''"
| "toString JNull = Inr ''null''"
| "toString (JBool b) = Inr (if b then ''true'' else ''false'')"
| "toString (JNum s) = Inr s"
| "toString (JStr s) = Inr s"
| "toString (JArr xs) = join xs"
| "toString (JObj kvs) =
     (if ''toString'' \<in> set (map fst kvs) then Inl TypeError else Inr ''[object Object]'')"
| "join [] = Inr []"
| "join [x] = element x"
| "join (x # y # ys) =
     (case element x of
        Inl err \<Rightarrow> Inl err
      | Inr s \<Rightarrow>
          (case join (y # ys) of Inl err \<Rightarrow> Inl err | Inr t \<Rightarrow> Inr (s @ '','' @ t)))"
| "element JUndefined = Inr []"
| "element JNull = Inr []"
| "element (JBool b) = toString (JBool b)"
| "element (JNum s) = toString (JNum s)"
| "element (JStr s) = toString (JStr s)"
| "element (JArr xs) = toString (JArr xs)"
| "element (JObj kvs) = toString (JObj kvs)"

text \<open>
  A template literal converts its substitutions in turn and throws when one of them
  does. The console lines are not part of the model, their throws are.
\<close>

definition throws :: "jsval list \<Rightarrow> bool" where
  "throws vs = list_ex (\<lambda>v. isl (toString v)) vs"

text \<open>
  \<^verbatim>\<open>a === b\<close> for two values that come from different frames: two primitive values
  are compared by value, an array or object is never the same as one parsed elsewhere.
\<close>

definition strict_equals :: "jsval \<Rightarrow> jsval \<Rightarrow> bool" where
  "strict_equals a b = (primitive a \<and> a = b)"

text \<open>
  \<^verbatim>\<open>const { action, userId, room, text, type, url, filename } = msg\<close>; \<^verbatim>\<open>text\<close> and
  \<^verbatim>\<open>type\<close> are called \<open>text_field\<close> and \<open>type_field\<close>.
\<close>

record inbound =
  action :: jsval
  userId :: jsval
  room :: jsval
  text_field :: jsval
  type_field :: jsval
  url :: jsval
  filename :: jsval

section \<open>Connection handles and what is sent on them\<close>

type_synonym conn = nat

datatype ready_state = CONNECTING | OPEN | CLOSING | CLOSED

text \<open>
  An outbound payload stands for the \<^verbatim>\<open>JSON.stringify\<close> of the object literal of the
  same action with these field values, in the source's field order; \<open>Raw\<close> is
  \<^verbatim>\<open>rawMsg.toString()\<close>, the inbound frame handed on as it came.
\<close>

datatype outbound =
    RoomCreated jsval
  | System jsval string
  | Raw string
  | DeleteFile jsval jsval jsval jsval
  | ClearChat jsval jsval string
  | RoomDestroyed jsval string

text \<open>The calls the server makes on handles, oldest first.\<close>

datatype call = Send conn outbound | Close conn

section \<open>The registry and the sessions\<close>

text \<open>
  \<^verbatim>\<open>currentRoom\<close> and \<^verbatim>\<open>currentUser\<close> are the two variables closed over by the
  handlers of one connection; both start as \<^verbatim>\<open>null\<close>.
\<close>

record session =
  currentRoom :: jsval
  currentUser :: jsval

record server =
  rooms :: "string \<rightharpoonup> conn list"
  roomOwners :: "string \<rightharpoonup> jsval"
  readyState :: "conn \<Rightarrow> ready_state"
  sessions :: "conn \<Rightarrow> session"
  calls :: "call list"

definition init :: server where
  "init = \<lparr> rooms = Map.empty, roomOwners = Map.empty, readyState = (\<lambda>_. OPEN),
      sessions = (\<lambda>_. \<lparr> currentRoom = JNull, currentUser = JNull \<rparr>), calls = [] \<rparr>"

text \<open>
  \<^verbatim>\<open>rooms\<close> and \<^verbatim>\<open>roomOwners\<close> are object literals \<^verbatim>\<open>{}\<close>: reading a key that is
  not a property of the object itself falls back to \<^verbatim>\<open>Object.prototype\<close>, whose
  properties are functions and objects (truthy, without \<^verbatim>\<open>push\<close>, \<^verbatim>\<open>forEach\<close> or
  \<^verbatim>\<open>filter\<close>, and never \<^verbatim>\<open>===\<close> to a parsed value).
\<close>

definition Object_prototype :: "string list" where
  "Object_prototype = [''constructor'', ''__defineGetter__'', ''__defineSetter__'',
     ''hasOwnProperty'', ''__lookupGetter__'', ''__lookupSetter__'', ''isPrototypeOf'',
     ''propertyIsEnumerable'', ''toString'', ''valueOf'', ''__proto__'', ''toLocaleString'']"

datatype 'a property = Own 'a | Inherited | Absent

definition get :: "(string \<rightharpoonup> 'a) \<Rightarrow> string \<Rightarrow> 'a property" where
  "get obj key =
     (case obj key of
        Some v \<Rightarrow> Own v
      | None \<Rightarrow> if key \<in> set Object_prototype then Inherited else Absent)"

text \<open>\<^verbatim>\<open>roomOwners[currentRoom] === userId\<close>: an absent property reads as \<^verbatim>\<open>undefined\<close>.\<close>

fun strict_eq :: "jsval property \<Rightarrow> jsval \<Rightarrow> bool" where
  "strict_eq (Own v) u = strict_equals v u"
| "strict_eq Inherited u = False"
| "strict_eq Absent u = (u = JUndefined)"

text \<open>
  The entry of a registry that a value names: the property of the registry's own
  under the key the value converts to, if it converts and there is one.
\<close>

definition entry :: "(string \<rightharpoonup> 'a) \<Rightarrow> jsval \<Rightarrow> 'a option" where
  "entry obj v = (case toString v of Inl err \<Rightarrow> None | Inr key \<Rightarrow> obj key)"

definition set_currentRoom :: "conn \<Rightarrow> jsval \<Rightarrow> server \<Rightarrow> server" where
  "set_currentRoom ws v st =
     st\<lparr>sessions := (sessions st)(ws := (sessions st ws)\<lparr>currentRoom := v\<rparr>)\<rparr>"

definition set_currentUser :: "conn \<Rightarrow> jsval \<Rightarrow> server \<Rightarrow> server" where
  "set_currentUser ws v st =
     st\<lparr>sessions := (sessions st)(ws := (sessions st ws)\<lparr>currentUser := v\<rparr>)\<rparr>"

text \<open>
  \<^verbatim>\<open>client.send(data)\<close> and \<^verbatim>\<open>client.close()\<close> belong to the \<^verbatim>\<open>ws\<close> package. The
  model records each call; \<^verbatim>\<open>close()\<close> starts the closing handshake, after which the
  handle reports \<^verbatim>\<open>CLOSING\<close> (the \<^verbatim>\<open>close\<close> event comes later, from the transport).
\<close>

definition send :: "conn \<Rightarrow> outbound \<Rightarrow> server \<Rightarrow> server" where
  "send client data st = st\<lparr>calls := calls st @ [Send client data]\<rparr>"

definition close :: "conn \<Rightarrow> server \<Rightarrow> server" where
  "close client st =
     st\<lparr>readyState := (readyState st)(client := CLOSING), calls := calls st @ [Close client]\<rparr>"

section \<open>The loops over a member list\<close>

text \<open>
  \<^verbatim>\<open>members.forEach((client) => { if (client.readyState === WebSocket.OPEN)
  client.send(data) })\<close>: the loop of the message, deleteFile, clearChat and departure
  broadcasts.
\<close>

fun forEach_send :: "outbound \<Rightarrow> conn list \<Rightarrow> server \<Rightarrow> server" where
  "forEach_send data [] st = st"
| "forEach_send data (client # clients) st =
     forEach_send data clients
       (if readyState st client = OPEN then send client data st else st)"

text \<open>The loop of the join notice, which also tests \<^verbatim>\<open>client !== ws\<close>.\<close>

fun forEach_join :: "conn \<Rightarrow> outbound \<Rightarrow> conn list \<Rightarrow> server \<Rightarrow> server" where
  "forEach_join ws data [] st = st"
| "forEach_join ws data (client # clients) st =
     forEach_join ws data clients
       (if client \<noteq> ws \<and> readyState st client = OPEN then send client data st else st)"

text \<open>The loop of destroyRoom: \<^verbatim>\<open>client.send(destroyMsg); client.close();\<close>.\<close>

fun forEach_destroy :: "outbound \<Rightarrow> conn list \<Rightarrow> server \<Rightarrow> server" where
  "forEach_destroy data [] st = st"
| "forEach_destroy data (client # clients) st =
     forEach_destroy data clients
       (if readyState st client = OPEN then close client (send client data st) else st)"

section \<open>Room codes\<close>

text \<open>\<^verbatim>\<open>n.toString()\<close> of a non-negative integer below \<open>10\<^sup>2\<^sup>1\<close>: its decimal digits.\<close>

fun number_toString :: "nat \<Rightarrow> string" where
  "number_toString n =
     (if n < 10 then [''0123456789'' ! n]
      else number_toString (n div 10) @ [''0123456789'' ! (n mod 10)])"

text \<open>
  Numbers are IEEE 754 doubles: a product or a sum is the exact result rounded to the
  nearest double, a tie going to the one with the even significand. For a positive
  \<open>x\<close> below \<open>2\<^sup>1\<^sup>0\<^sup>2\<^sup>4\<close>, \<open>binade x\<close> is the \<open>e\<close> with \<open>2\<^sup>e \<le> x < 2\<^sup>e\<^sup>+\<^sup>1\<close> and \<open>ulp x\<close>
  the distance between the doubles around \<open>x\<close> (significands have 53 bits; below
  \<open>2\<^sup>-\<^sup>1\<^sup>0\<^sup>2\<^sup>2\<close> the distance stays \<open>2\<^sup>-\<^sup>1\<^sup>0\<^sup>7\<^sup>4\<close>).
\<close>

definition binade :: "rat \<Rightarrow> int" where
  "binade x = (if 1 \<le> x then bitlen \<lfloor>x\<rfloor> - 1 else - bitlen (\<lceil>1 / x\<rceil> - 1))"

definition ulp :: "rat \<Rightarrow> rat" where
  "ulp x = 2 powi (max (binade x) (- 1022) - 52)"

definition round_even :: "rat \<Rightarrow> int" where
  "round_even y =
     (let n = \<lfloor>y\<rfloor>; f = y - of_int n
      in if f < 1 / 2 then n else if 1 / 2 < f then n + 1 else if even n then n else n + 1)"

definition double :: "rat \<Rightarrow> rat" where
  "double x = (if x = 0 then 0 else of_int (round_even (x / ulp x)) * ulp x)"

text \<open>
  \<^verbatim>\<open>Math.floor(10000 + Math.random() * 90000).toString()\<close>, with the double drawn by
  \<^verbatim>\<open>Math.random()\<close> as the argument.
\<close>

definition new_room_code :: "rat \<Rightarrow> string" where
  "new_room_code random =
     number_toString (nat \<lfloor>double (10000 + double (random * 90000))\<rfloor>)"

section \<open>The message handler\<close>

text \<open>The substitutions of the console line of a message frame (lines 110 to 114).\<close>

definition message_log :: "jsval \<Rightarrow> inbound \<Rightarrow> jsval list" where
  "message_log cur msg =
     (if type_field msg = JStr ''file''
      then [cur, userId msg, if truthy (filename msg) then filename msg else url msg]
      else [cur, userId msg, text_field msg])"

text \<open>
  The body of the \<^verbatim>\<open>try\<close> block of \<^verbatim>\<open>ws.on("message")\<close>. The argument \<open>parsed\<close> is
  the outcome of \<^verbatim>\<open>JSON.parse(rawMsg.toString())\<close> and of the destructuring of its
  result: \<open>Inl SyntaxError\<close> when the text does not parse, \<open>Inl TypeError\<close> when it
  parses to \<^verbatim>\<open>null\<close>, the fields otherwise. A throw is \<open>Inl\<close>, with the state reached
  by then.
\<close>

definition try_block ::
  "conn \<Rightarrow> string \<Rightarrow> js_error + inbound \<Rightarrow> rat \<Rightarrow> server \<Rightarrow> (js_error \<times> server) + server" where
  "try_block ws rawMsg parsed random st =
     (case parsed of
        Inl err \<Rightarrow> Inl (err, st)
      | Inr msg \<Rightarrow>
          if action msg = JStr ''create'' then
            let code = new_room_code random;
                st1 = set_currentRoom ws (JStr code) st;
                st2 = st1\<lparr>rooms := (rooms st1)(code \<mapsto> [ws])\<rparr>;
                st3 = st2\<lparr>roomOwners := (roomOwners st2)(code \<mapsto> userId msg)\<rparr>;
                st4 = set_currentUser ws (userId msg) st3
            in if throws [userId msg, JStr code] then Inl (TypeError, st4)
               else Inr (send ws (RoomCreated (JStr code)) st4)
          else if action msg = JStr ''join'' then
            let cur = room msg;
                st1 = set_currentRoom ws cur st;
                st2 = set_currentUser ws (userId msg) st1
            in (case toString cur of
                  Inl err \<Rightarrow> Inl (err, st2)
                | Inr key \<Rightarrow>
                    let st3 = (case get (rooms st2) key of
                                 Absent \<Rightarrow> st2\<lparr>rooms := (rooms st2)(key \<mapsto> [])\<rparr>
                               | _ \<Rightarrow> st2)
                    in (case get (rooms st3) key of
                          Own members \<Rightarrow>
                            let st4 = st3\<lparr>rooms := (rooms st3)(key \<mapsto> members @ [ws])\<rparr>
                            in (case toString (userId msg) of
                                  Inl err \<Rightarrow> Inl (err, st4)
                                | Inr user \<Rightarrow>
                                    let joinMsg = System cur (user @ '' has joined the chat'')
                                    in Inr (forEach_join ws joinMsg (members @ [ws]) st4))
                        | _ \<Rightarrow> Inl (TypeError, st3)))
          else if action msg = JStr ''message'' \<and> truthy (currentRoom (sessions st ws)) then
            let cur = currentRoom (sessions st ws)
            in if throws (message_log cur msg) then Inl (TypeError, st)
               else (case toString cur of
                       Inl err \<Rightarrow> Inl (err, st)
                     | Inr key \<Rightarrow>
                         (case get (rooms st) key of
                            Own members \<Rightarrow> Inr (forEach_send (Raw rawMsg) members st)
                          | _ \<Rightarrow> Inl (TypeError, st)))
          else if action msg = JStr ''deleteFile'' \<and> truthy (currentRoom (sessions st ws)) then
            let cur = currentRoom (sessions st ws);
                deleteMsg = DeleteFile cur (userId msg) (url msg) (filename msg)
            in if throws [cur, userId msg, filename msg] then Inl (TypeError, st)
               else (case toString cur of
                       Inl err \<Rightarrow> Inl (err, st)
                     | Inr key \<Rightarrow>
                         (case get (rooms st) key of
                            Own members \<Rightarrow> Inr (forEach_send deleteMsg members st)
                          | _ \<Rightarrow> Inl (TypeError, st)))
          else if action msg = JStr ''clearChat'' \<and> truthy (currentRoom (sessions st ws)) then
            let cur = currentRoom (sessions st ws)
            in (case toString cur of
                  Inl err \<Rightarrow> Inl (err, st)
                | Inr key \<Rightarrow>
                    (case toString (userId msg) of
                       Inl err \<Rightarrow> Inl (err, st)
                     | Inr user \<Rightarrow>
                         (case toString (text_field msg) of
                            Inl err \<Rightarrow> Inl (err, st)
                          | Inr shortcut \<Rightarrow>
                              let clearMsg = ClearChat cur (userId msg)
                                    (''Chat cleared by '' @ user @ '' using shortcut ('' @
                                     shortcut @ '')'')
                              in (case get (rooms st) key of
                                    Own members \<Rightarrow> Inr (forEach_send clearMsg members st)
                                  | _ \<Rightarrow> Inl (TypeError, st)))))
          else if action msg = JStr ''destroyRoom'' \<and> truthy (currentRoom (sessions st ws)) then
            let cur = currentRoom (sessions st ws)
            in (case toString cur of
                  Inl err \<Rightarrow> Inl (err, st)
                | Inr key \<Rightarrow>
                    if strict_eq (get (roomOwners st) key) (userId msg) then
                      (case toString (userId msg) of
                         Inl err \<Rightarrow> Inl (err, st)
                       | Inr user \<Rightarrow>
                           let destroyMsg = RoomDestroyed cur
                                 (''Room '' @ key @ '' has been destroyed by '' @ user)
                           in (case get (rooms st) key of
                                 Own members \<Rightarrow>
                                   let st1 = forEach_destroy destroyMsg members st;
                                       st2 = st1\<lparr>rooms := (rooms st1)(key := None)\<rparr>
                                   in Inr (st2\<lparr>roomOwners := (roomOwners st2)(key := None)\<rparr>)
                               | _ \<Rightarrow> Inl (TypeError, st)))
                    else Inr st)
          else Inr st)"

text \<open>
  \<^verbatim>\<open>ws.on("message")\<close>: the \<^verbatim>\<open>catch\<close> block writes a console line and the handler
  returns; what was done before the throw stays done.
\<close>

definition on_message ::
  "conn \<Rightarrow> string \<Rightarrow> js_error + inbound \<Rightarrow> rat \<Rightarrow> server \<Rightarrow> server" where
  "on_message ws rawMsg parsed random st =
     (case try_block ws rawMsg parsed random st of
        Inl (err, st') \<Rightarrow> st'
      | Inr st' \<Rightarrow> st')"

section \<open>The close handler\<close>

text \<open>
  \<^verbatim>\<open>ws.on("close")\<close> has no \<^verbatim>\<open>try\<close>: a throw leaves the handler, with the state
  reached by then.
\<close>

definition on_close :: "conn \<Rightarrow> server \<Rightarrow> (js_error \<times> server) + server" where
  "on_close ws st =
     (let cur = currentRoom (sessions st ws) in
      if truthy cur then
        (case toString cur of
           Inl err \<Rightarrow> Inl (err, st)
         | Inr key \<Rightarrow>
             (case get (rooms st) key of
                Own members \<Rightarrow>
                  let remaining = filter (\<lambda>c. c \<noteq> ws) members;
                      st1 = st\<lparr>rooms := (rooms st)(key \<mapsto> remaining)\<rparr>
                  in if truthy (currentUser (sessions st ws)) then
                       (case toString (currentUser (sessions st ws)) of
                          Inl err \<Rightarrow> Inl (err, st1)
                        | Inr user \<Rightarrow>
                            let leftMsg = System cur (user @ '' has left the chat'')
                            in Inr (forEach_send leftMsg remaining st1))
                     else Inr st1
              | Inherited \<Rightarrow> Inl (TypeError, st)
              | Absent \<Rightarrow> Inr st))
      else Inr st)"

section \<open>Runs of the server\<close>

text \<open>
  What reaches the server: a frame on a connection (with the value \<^verbatim>\<open>Math.random()\<close>
  would return while it is handled), or the end of a connection. The transport marks
  a handle \<^verbatim>\<open>CLOSED\<close> before it emits \<^verbatim>\<open>close\<close>. A throw that leaves a handler ends
  the run.
\<close>

datatype input = Message conn string "js_error + inbound" rat | Disconnect conn

fun step :: "input \<Rightarrow> server \<Rightarrow> js_error + server" where
  "step (Message ws rawMsg parsed random) st = Inr (on_message ws rawMsg parsed random st)"
| "step (Disconnect ws) st =
     (case on_close ws (st\<lparr>readyState := (readyState st)(ws := CLOSED)\<rparr>) of
        Inl (err, st') \<Rightarrow> Inl err
      | Inr st' \<Rightarrow> Inr st')"

fun run :: "input list \<Rightarrow> server \<Rightarrow> js_error + server" where
  "run [] st = Inr st"
| "run (i # rest) st = (case step i st of Inl err \<Rightarrow> Inl err | Inr st' \<Rightarrow> run rest st')"

section \<open>Observing a handler\<close>

text \<open>The calls a handler added, and the payloads among them that went to one handle.\<close>

definition new_calls :: "server \<Rightarrow> server \<Rightarrow> call list" where
  "new_calls st st' = drop (length (calls st)) (calls st')"

fun sent_to :: "conn \<Rightarrow> call list \<Rightarrow> outbound list" where
  "sent_to c [] = []"
| "sent_to c (Send c' data # cs) = (if c' = c then data # sent_to c cs else sent_to c cs)"
| "sent_to c (Close c' # cs) = sent_to c cs"

text \<open>The handles of a list, each at its first position.\<close>

fun first_occurrences :: "'a list \<Rightarrow> 'a list" where
  "first_occurrences [] = []"
| "first_occurrences (x # xs) = x # first_occurrences (filter (\<lambda>y. y \<noteq> x) xs)"

text \<open>The number a string of decimal digits denotes.\<close>

definition digit_of :: "char \<Rightarrow> nat" where
  "digit_of ch = of_char ch - 48"

definition decimal_value :: "string \<Rightarrow> nat" where
  "decimal_value s = foldl (\<lambda>acc ch. 10 * acc + digit_of ch) 0 s"

text \<open>A frame that asks to join the room stored under the key \<open>code\<close>.\<close>

fun is_join :: "string \<Rightarrow> input \<Rightarrow> bool" where
  "is_join code (Message ws rawMsg (Inr msg) random) =
     (action msg = JStr ''join'' \<and> toString (room msg) = Inr code)"
| "is_join code (Message ws rawMsg (Inl err) random) = False"
| "is_join code (Disconnect ws) = False"

fun conn_of :: "input \<Rightarrow> conn" where
  "conn_of (Message ws rawMsg parsed random) = ws"
| "conn_of (Disconnect ws) = ws"

section \<open>Example frames and states\<close>

text \<open>
  Parsed frames with the three fields the registry reads, and the states of a small
  session: connection 1 creates a room as \<open>ann\<close> (the draw 0 gives the code 10000),
  connection 2 joins it as \<open>bob\<close>.
\<close>

definition frame :: "string \<Rightarrow> jsval \<Rightarrow> jsval \<Rightarrow> inbound" where
  "frame a u r = \<lparr> action = JStr a, userId = u, room = r, text_field = JUndefined,
     type_field = JUndefined, url = JUndefined, filename = JUndefined \<rparr>"

definition raw_create :: string where
  \<open>raw_create = ''{"action":"create","userId":"ann"}''\<close>

definition raw_join :: string where
  \<open>raw_join = ''{"action":"join","userId":"bob","room":"10000"}''\<close>

definition raw_hello :: string where
  \<open>raw_hello = ''{"action":"message","userId":"ann"}''\<close>

definition raw_delete :: string where
  \<open>raw_delete = ''{"action":"deleteFile","userId":"ann"}''\<close>

definition raw_clear :: string where
  \<open>raw_clear = ''{"action":"clearChat","userId":"ann"}''\<close>

definition raw_destroy :: string where
  \<open>raw_destroy = ''{"action":"destroyRoom","userId":"ann"}''\<close>

definition raw_join_cat :: string where
  \<open>raw_join_cat = ''{"action":"join","userId":"cat","room":"10000"}''\<close>

definition raw_hello_bob :: string where
  \<open>raw_hello_bob = ''{"action":"message","userId":"bob"}''\<close>

definition raw_destroy_bob :: string where
  \<open>raw_destroy_bob = ''{"action":"destroyRoom","userId":"bob"}''\<close>

definition created :: server where
  "created = on_message 1 raw_create (Inr (frame ''create'' (JStr ''ann'') JUndefined)) 0 init"

definition joined :: server where
  "joined = on_message 2 raw_join (Inr (frame ''join'' (JStr ''bob'') (JStr ''10000''))) 0 created"

definition destroyed :: server where
  "destroyed =
     on_message 1 raw_destroy (Inr (frame ''destroyRoom'' (JStr ''ann'') JUndefined)) 0 joined"

text \<open>The peer of connection 2 has started to close: its handle reports \<^verbatim>\<open>CLOSING\<close>.\<close>

definition half_closed :: server where
  "half_closed = joined\<lparr>readyState := (readyState joined)(2 := CLOSING)\<rparr>"

text \<open>Connection 2 sends its join frame a second time.\<close>

definition joined_twice :: server where
  "joined_twice =
     on_message 2 raw_join (Inr (frame ''join'' (JStr ''bob'') (JStr ''10000''))) 0 joined"

text \<open>Connection 1 joins a room nobody created.\<close>

definition raw_join_lobby :: string where
  \<open>raw_join_lobby = ''{"action":"join","userId":"ann","room":"lobby"}''\<close>

definition raw_destroy_anonymous :: string where
  \<open>raw_destroy_anonymous = ''{"action":"destroyRoom"}''\<close>

definition lobby :: server where
  "lobby =
     on_message 1 raw_join_lobby (Inr (frame ''join'' (JStr ''ann'') (JStr ''lobby''))) 0 init"

text \<open>Connection 1 asks for a room named like a property of \<^verbatim>\<open>Object.prototype\<close>.\<close>

definition raw_join_constructor :: string where
  \<open>raw_join_constructor = ''{"action":"join","userId":"ann","room":"constructor"}''\<close>

definition constructor_room :: server where
  "constructor_room =
     on_message 1 raw_join_constructor
       (Inr (frame ''join'' (JStr ''ann'') (JStr ''constructor''))) 0 init"

text \<open>Connection 3 creates a room as \<open>eve\<close> and draws the code of the live room.\<close>

definition raw_create_eve :: string where
  \<open>raw_create_eve = ''{"action":"create","userId":"eve"}''\<close>

definition created_again :: server where
  "created_again =
     on_message 3 raw_create_eve (Inr (frame ''create'' (JStr ''eve'') JUndefined)) 0 created"



text \<open>
  A \<^verbatim>\<open>userId\<close> that is an object with a \<^verbatim>\<open>toString\<close> property of its own, and a create
  frame that carries it.
\<close>

definition stubborn :: jsval where
  "stubborn = JObj [(''toString'', JNum ''1'')]"

definition raw_create_stubborn :: string where
  \<open>raw_create_stubborn = ''{"action":"create","userId":{"toString":1}}''\<close>

definition created_stubborn :: server where
  "created_stubborn =
     on_message 1 raw_create_stubborn (Inr (frame ''create'' stubborn JUndefined)) 0 init"

section \<open>Facts about the model\<close>

lemmas model_defs = on_message_def try_block_def get_def set_currentRoom_def
  set_currentUser_def send_def close_def Object_prototype_def frame_def Let_def
  throws_def message_log_def strict_equals_def

declare number_toString.simps [simp del]

subsection \<open>Records and calls\<close>

lemma session_update_all:
  "s\<lparr>currentRoom := c, currentUser := u\<rparr> = \<lparr>currentRoom = c, currentUser = u\<rparr>"
  by (cases s) simp

lemma send_fields [simp]:
  "rooms (send c data st) = rooms st"
  "roomOwners (send c data st) = roomOwners st"
  "readyState (send c data st) = readyState st"
  "sessions (send c data st) = sessions st"
  "calls (send c data st) = calls st @ [Send c data]"
  by (simp_all add: send_def)

lemma close_fields [simp]:
  "rooms (close c st) = rooms st"
  "roomOwners (close c st) = roomOwners st"
  "readyState (close c st) = (readyState st)(c := CLOSING)"
  "sessions (close c st) = sessions st"
  "calls (close c st) = calls st @ [Close c]"
  by (simp_all add: close_def)

subsection \<open>Conversions\<close>

lemma toString_primitive: "primitive v \<Longrightarrow> \<exists>s. toString v = Inr s"
  by (cases v) simp_all

lemma throws_Nil [simp]: "\<not> throws []"
  by (simp add: throws_def)

lemma throws_Cons [simp]: "throws (v # vs) = (isl (toString v) \<or> throws vs)"
  by (simp add: throws_def)

lemma entry_key: "toString v = Inr key \<Longrightarrow> entry obj v = obj key"
  by (simp add: entry_def)

lemma entry_Some: "entry obj v = Some x \<Longrightarrow> \<exists>key. toString v = Inr key \<and> obj key = Some x"
  by (cases "toString v") (simp_all add: entry_def)

subsection \<open>The example states, evaluated\<close>

lemma code_number_0: "\<lfloor>double (10000 + double (0 * 90000))\<rfloor> = 10000"
  by code_simp

lemma code_number_half: "\<lfloor>double (10000 + double (1 / 2 * 90000))\<rfloor> = 55000"
  by code_simp

lemma new_room_code_0: "new_room_code 0 = ''10000''"
  by (simp only: new_room_code_def code_number_0) (simp add: number_toString.simps)

lemma new_room_code_half: "new_room_code (1 / 2) = ''55000''"
  by (simp only: new_room_code_def code_number_half) (simp add: number_toString.simps)

lemma created_eq:
  "created = \<lparr> rooms = [''10000'' \<mapsto> [1]], roomOwners = [''10000'' \<mapsto> JStr ''ann''],
     readyState = (\<lambda>_. OPEN),
     sessions = (\<lambda>_. \<lparr> currentRoom = JNull, currentUser = JNull \<rparr>)
        (1 := \<lparr> currentRoom = JStr ''10000'', currentUser = JStr ''ann'' \<rparr>),
     calls = [Send 1 (RoomCreated (JStr ''10000''))] \<rparr>"
  by (simp add: created_def init_def model_defs new_room_code_0)

lemma joined_eq:
  "joined = \<lparr> rooms = [''10000'' \<mapsto> [1, 2]], roomOwners = [''10000'' \<mapsto> JStr ''ann''],
     readyState = (\<lambda>_. OPEN),
     sessions = (\<lambda>_. \<lparr> currentRoom = JNull, currentUser = JNull \<rparr>)
        (1 := \<lparr> currentRoom = JStr ''10000'', currentUser = JStr ''ann'' \<rparr>,
         2 := \<lparr> currentRoom = JStr ''10000'', currentUser = JStr ''bob'' \<rparr>),
     calls = [Send 1 (RoomCreated (JStr ''10000'')),
              Send 1 (System (JStr ''10000'') ''bob has joined the chat'')] \<rparr>"
  by (simp add: joined_def created_eq model_defs)

lemma destroyed_eq:
  "destroyed = \<lparr> rooms = Map.empty, roomOwners = Map.empty,
     readyState = (\<lambda>_. OPEN)(1 := CLOSING, 2 := CLOSING),
     sessions = (\<lambda>_. \<lparr> currentRoom = JNull, currentUser = JNull \<rparr>)
        (1 := \<lparr> currentRoom = JStr ''10000'', currentUser = JStr ''ann'' \<rparr>,
         2 := \<lparr> currentRoom = JStr ''10000'', currentUser = JStr ''bob'' \<rparr>),
     calls = [Send 1 (RoomCreated (JStr ''10000'')),
              Send 1 (System (JStr ''10000'') ''bob has joined the chat''),
              Send 1 (RoomDestroyed (JStr ''10000'') ''Room 10000 has been destroyed by ann''),
              Close 1,
              Send 2 (RoomDestroyed (JStr ''10000'') ''Room 10000 has been destroyed by ann''),
              Close 2] \<rparr>"
  by (simp add: destroyed_def joined_eq model_defs)

lemma half_closed_eq:
  "half_closed = \<lparr> rooms = [''10000'' \<mapsto> [1, 2]], roomOwners = [''10000'' \<mapsto> JStr ''ann''],
     readyState = (\<lambda>_. OPEN)(2 := CLOSING),
     sessions = (\<lambda>_. \<lparr> currentRoom = JNull, currentUser = JNull \<rparr>)
        (1 := \<lparr> currentRoom = JStr ''10000'', currentUser = JStr ''ann'' \<rparr>,
         2 := \<lparr> currentRoom = JStr ''10000'', currentUser = JStr ''bob'' \<rparr>),
     calls = [Send 1 (RoomCreated (JStr ''10000'')),
              Send 1 (System (JStr ''10000'') ''bob has joined the chat'')] \<rparr>"
  by (simp add: half_closed_def joined_eq)

lemma joined_twice_eq:
  "joined_twice = \<lparr> rooms = [''10000'' \<mapsto> [1, 2, 2]],
     roomOwners = [''10000'' \<mapsto> JStr ''ann''],
     readyState = (\<lambda>_. OPEN),
     sessions = (\<lambda>_. \<lparr> currentRoom = JNull, currentUser = JNull \<rparr>)
        (1 := \<lparr> currentRoom = JStr ''10000'', currentUser = JStr ''ann'' \<rparr>,
         2 := \<lparr> currentRoom = JStr ''10000'', currentUser = JStr ''bob'' \<rparr>),
     calls = [Send 1 (RoomCreated (JStr ''10000'')),
              Send 1 (System (JStr ''10000'') ''bob has joined the chat''),
              Send 1 (System (JStr ''10000'') ''bob has joined the chat'')] \<rparr>"
  by (simp add: joined_twice_def joined_eq model_defs)

lemma lobby_eq:
  "lobby = \<lparr> rooms = [''lobby'' \<mapsto> [1]], roomOwners = Map.empty,
     readyState = (\<lambda>_. OPEN),
     sessions = (\<lambda>_. \<lparr> currentRoom = JNull, currentUser = JNull \<rparr>)
        (1 := \<lparr> currentRoom = JStr ''lobby'', currentUser = JStr ''ann'' \<rparr>),
     calls = [] \<rparr>"
  by (simp add: lobby_def init_def model_defs)


lemma constructor_room_eq:
  "constructor_room = init\<lparr>sessions := (sessions init)(1 :=
     \<lparr>currentRoom = JStr ''constructor'', currentUser = JStr ''ann''\<rparr>)\<rparr>"
  by (simp add: constructor_room_def init_def model_defs)

lemma created_stubborn_eq:
  "created_stubborn = \<lparr> rooms = [''10000'' \<mapsto> [1]], roomOwners = [''10000'' \<mapsto> stubborn],
     readyState = (\<lambda>_. OPEN),
     sessions = (\<lambda>_. \<lparr> currentRoom = JNull, currentUser = JNull \<rparr>)
        (1 := \<lparr> currentRoom = JStr ''10000'', currentUser = stubborn \<rparr>),
     calls = [] \<rparr>"
  by (simp add: created_stubborn_def stubborn_def init_def model_defs new_room_code_0)

subsection \<open>The three loops\<close>

lemma forEach_send_eq:
  "forEach_send data cs st =
     st\<lparr>calls := calls st @ map (\<lambda>c. Send c data) (filter (\<lambda>c. readyState st c = OPEN) cs)\<rparr>"
  by (induction cs arbitrary: st) (simp_all add: send_def)

lemma forEach_join_eq:
  "forEach_join ws data cs st =
     st\<lparr>calls := calls st @
       map (\<lambda>c. Send c data) (filter (\<lambda>c. c \<noteq> ws \<and> readyState st c = OPEN) cs)\<rparr>"
  by (induction cs arbitrary: st) (simp_all add: send_def)

lemma forEach_send_fields [simp]:
  "rooms (forEach_send data cs st) = rooms st"
  "roomOwners (forEach_send data cs st) = roomOwners st"
  by (simp_all add: forEach_send_eq)

lemma forEach_join_fields [simp]:
  "rooms (forEach_join ws data cs st) = rooms st"
  "roomOwners (forEach_join ws data cs st) = roomOwners st"
  by (simp_all add: forEach_join_eq)

lemma forEach_destroy_fields [simp]:
  "rooms (forEach_destroy data cs st) = rooms st"
  "roomOwners (forEach_destroy data cs st) = roomOwners st"
  "sessions (forEach_destroy data cs st) = sessions st"
  by (induction cs arbitrary: st) simp_all

lemma forEach_destroy_readyState:
  "readyState (forEach_destroy data cs st) x =
     (if x \<in> set cs \<and> readyState st x = OPEN then CLOSING else readyState st x)"
  by (induction cs arbitrary: st) auto

lemma filter_open_after_close:
  "filter (\<lambda>x. ((f :: conn \<Rightarrow> ready_state)(c := CLOSING)) x = OPEN) cs =
   filter (\<lambda>y. y \<noteq> c) (filter (\<lambda>x. f x = OPEN) cs)"
  by (induction cs) auto

lemma forEach_destroy_calls:
  "calls (forEach_destroy data cs st) =
     calls st @ concat (map (\<lambda>c. [Send c data, Close c])
       (first_occurrences (filter (\<lambda>c. readyState st c = OPEN) cs)))"
proof (induction cs arbitrary: st)
  case Nil
  show ?case by simp
next
  case (Cons c cs)
  show ?case
  proof (cases "readyState st c = OPEN")
    case True
    have "calls (forEach_destroy data (c # cs) st) =
          calls (forEach_destroy data cs (close c (send c data st)))"
      using True by simp
    also have "\<dots> = (calls st @ [Send c data, Close c]) @
        concat (map (\<lambda>c. [Send c data, Close c])
          (first_occurrences (filter (\<lambda>y. y \<noteq> c) (filter (\<lambda>x. readyState st x = OPEN) cs))))"
      by (simp only: Cons.IH close_fields send_fields filter_open_after_close append_assoc
            append.simps)
    also have "\<dots> = calls st @ concat (map (\<lambda>c. [Send c data, Close c])
          (first_occurrences (filter (\<lambda>c. readyState st c = OPEN) (c # cs))))"
      using True by simp
    finally show ?thesis .
  next
    case False
    then show ?thesis by (simp add: Cons.IH)
  qed
qed

lemma filter_open_others:
  "filter (\<lambda>c. c \<noteq> ws \<and> readyState st c = OPEN) members =
   filter (\<lambda>c. c \<noteq> ws) (filter (\<lambda>c. readyState st c = OPEN) members)"
  by (induction members) auto

lemma filter_others_open:
  "filter (\<lambda>c. readyState st c = OPEN) (filter (\<lambda>c. c \<noteq> ws) members) =
   filter (\<lambda>c. c \<noteq> ws) (filter (\<lambda>c. readyState st c = OPEN) members)"
  by (induction members) auto

subsection \<open>Observations\<close>

lemma sent_to_map_Send:
  "sent_to c (map (\<lambda>x. Send x data) xs) = replicate (count_list xs c) data"
  by (induction xs) simp_all

lemma new_calls_append: "calls st' = calls st @ new \<Longrightarrow> new_calls st st' = new"
  by (simp add: new_calls_def)

lemma set_first_occurrences [simp]: "set (first_occurrences xs) = set xs"
  by (induction xs rule: first_occurrences.induct) auto

lemma distinct_first_occurrences [simp]: "distinct (first_occurrences xs)"
  by (induction xs rule: first_occurrences.induct) auto

lemma filter_absent: "a \<notin> set xs \<Longrightarrow> filter (\<lambda>y. y \<noteq> a) xs = xs"
  by (induction xs) auto

lemma first_occurrences_distinct: "distinct xs \<Longrightarrow> first_occurrences xs = xs"
  by (induction xs) (simp_all add: filter_absent)

lemma count_list_distinct: "distinct xs \<Longrightarrow> count_list xs x = (if x \<in> set xs then 1 else 0)"
  by (induction xs) auto

lemma sent_to_send_close:
  "sent_to c (concat (map (\<lambda>x. [Send x data, Close x]) xs)) = replicate (count_list xs c) data"
  by (induction xs) simp_all

subsection \<open>Decimal digits\<close>

lemma digit_cases: "d < 10 \<Longrightarrow> d \<in> {0, 1, 2, 3, 4, 5, 6, 7, 8, 9::nat}"
  by auto

lemma digit_of_nth: "d < 10 \<Longrightarrow> digit_of (''0123456789'' ! d) = d"
  by (drule digit_cases) (auto simp: digit_of_def)

lemma nth_is_digit: "d < 10 \<Longrightarrow> ''0123456789'' ! d \<in> set ''0123456789''"
  by (rule nth_mem) simp

lemma number_toString_digits: "set (number_toString n) \<subseteq> set ''0123456789''"
proof (induction n rule: number_toString.induct)
  case (1 n)
  show ?case
  proof (cases "n < 10")
    case True
    then show ?thesis
      using nth_is_digit[of n] by (subst number_toString.simps) simp
  next
    case False
    then show ?thesis
      using "1.IH" nth_is_digit[of "n mod 10"] by (subst number_toString.simps) simp
  qed
qed

lemma decimal_value_snoc: "decimal_value (s @ [ch]) = 10 * decimal_value s + digit_of ch"
  by (simp add: decimal_value_def)

lemma decimal_value_number_toString: "decimal_value (number_toString n) = n"
proof (induction n rule: number_toString.induct)
  case (1 n)
  show ?case
  proof (cases "n < 10")
    case True
    then show ?thesis
      by (subst number_toString.simps) (simp add: decimal_value_def digit_of_nth)
  next
    case False
    then show ?thesis
      using "1.IH" by (subst number_toString.simps) (simp add: decimal_value_snoc digit_of_nth)
  qed
qed

lemma length_number_toString_step:
  "10 \<le> n \<Longrightarrow> length (number_toString n) = Suc (length (number_toString (n div 10)))"
  by (subst number_toString.simps) simp

lemma length_number_toString_5:
  assumes "10000 \<le> n" and "n < 100000"
  shows "length (number_toString n) = 5"
proof -
  have "n div 10 div 10 div 10 div 10 < 10" using assms by simp
  then have "length (number_toString (n div 10 div 10 div 10 div 10)) = 1"
    by (subst number_toString.simps) simp
  moreover have "10 \<le> n" "10 \<le> n div 10" "10 \<le> n div 10 div 10" "10 \<le> n div 10 div 10 div 10"
    using assms by simp_all
  ultimately show ?thesis
    by (simp add: length_number_toString_step)
qed

subsection \<open>The branches of the message handler\<close>

lemma toString_error:
  "toString v = Inl err \<Longrightarrow> err = TypeError"
  "join vs = Inl err \<Longrightarrow> err = TypeError"
  "element v = Inl err \<Longrightarrow> err = TypeError"
  by (induction v and vs and v rule: toString_join_element.induct)
     (auto split: if_splits sum.splits)

lemma try_block_create:
  assumes "action msg = JStr ''create''"
  shows "try_block ws rawMsg (Inr msg) random st =
     (if isl (toString (userId msg))
      then Inl (TypeError,
        st\<lparr>rooms := (rooms st)(new_room_code random \<mapsto> [ws]),
           roomOwners := (roomOwners st)(new_room_code random \<mapsto> userId msg),
           sessions := (sessions st)(ws :=
             \<lparr>currentRoom = JStr (new_room_code random), currentUser = userId msg\<rparr>)\<rparr>)
      else Inr
        (st\<lparr>rooms := (rooms st)(new_room_code random \<mapsto> [ws]),
           roomOwners := (roomOwners st)(new_room_code random \<mapsto> userId msg),
           sessions := (sessions st)(ws :=
             \<lparr>currentRoom = JStr (new_room_code random), currentUser = userId msg\<rparr>),
           calls := calls st @ [Send ws (RoomCreated (JStr (new_room_code random)))]\<rparr>))"
  using assms
  by (simp add: try_block_def Let_def set_currentRoom_def set_currentUser_def
        send_def session_update_all)

lemma on_message_create:
  assumes "action msg = JStr ''create''"
  shows "rooms (on_message ws rawMsg (Inr msg) random st) =
           (rooms st)(new_room_code random \<mapsto> [ws])"
    and "roomOwners (on_message ws rawMsg (Inr msg) random st) =
           (roomOwners st)(new_room_code random \<mapsto> userId msg)"
  using try_block_create[OF assms, of ws rawMsg random st]
  by (simp_all add: on_message_def)

lemma try_block_join_member:
  assumes "action msg = JStr ''join''"
    and "toString (room msg) = Inr key"
    and "rooms st key = Some members"
  shows "try_block ws rawMsg (Inr msg) random st =
     (case toString (userId msg) of
        Inl err \<Rightarrow> Inl (err,
          st\<lparr>rooms := (rooms st)(key \<mapsto> members @ [ws]),
             sessions := (sessions st)(ws :=
               \<lparr>currentRoom = room msg, currentUser = userId msg\<rparr>)\<rparr>)
      | Inr user \<Rightarrow> Inr
          (st\<lparr>rooms := (rooms st)(key \<mapsto> members @ [ws]),
             sessions := (sessions st)(ws :=
               \<lparr>currentRoom = room msg, currentUser = userId msg\<rparr>),
             calls := calls st @
               map (\<lambda>c. Send c (System (room msg) (user @ '' has joined the chat'')))
                 (filter (\<lambda>c. c \<noteq> ws \<and> readyState st c = OPEN) members)\<rparr>))"
  using assms
  by (simp add: try_block_def get_def Let_def set_currentRoom_def set_currentUser_def
        forEach_join_eq session_update_all split: sum.splits)

lemma try_block_join_absent:
  assumes "action msg = JStr ''join''"
    and "toString (room msg) = Inr key"
    and "rooms st key = None" and "key \<notin> set Object_prototype"
  shows "try_block ws rawMsg (Inr msg) random st =
     (case toString (userId msg) of
        Inl err \<Rightarrow> Inl (err,
          st\<lparr>rooms := (rooms st)(key \<mapsto> [ws]),
             sessions := (sessions st)(ws :=
               \<lparr>currentRoom = room msg, currentUser = userId msg\<rparr>)\<rparr>)
      | Inr user \<Rightarrow> Inr
          (st\<lparr>rooms := (rooms st)(key \<mapsto> [ws]),
             sessions := (sessions st)(ws :=
               \<lparr>currentRoom = room msg, currentUser = userId msg\<rparr>)\<rparr>))"
  using assms
  by (simp add: try_block_def get_def Let_def set_currentRoom_def set_currentUser_def
        forEach_join_eq session_update_all split: sum.splits)

lemma try_block_message:
  assumes "action msg = JStr ''message''"
    and "currentRoom (sessions st ws) = cur" and "truthy cur"
    and "toString cur = Inr key"
    and "rooms st key = Some members"
  shows "try_block ws rawMsg (Inr msg) random st =
     (if throws (message_log cur msg) then Inl (TypeError, st)
      else Inr (forEach_send (Raw rawMsg) members st))"
  using assms by (simp add: try_block_def get_def Let_def)

lemma try_block_deleteFile:
  assumes "action msg = JStr ''deleteFile''"
    and "currentRoom (sessions st ws) = cur" and "truthy cur"
    and "toString cur = Inr key"
    and "rooms st key = Some members"
  shows "try_block ws rawMsg (Inr msg) random st =
     (if throws [userId msg, filename msg] then Inl (TypeError, st)
      else Inr (forEach_send (DeleteFile cur (userId msg) (url msg) (filename msg)) members st))"
  using assms by (simp add: try_block_def get_def Let_def)

lemma try_block_clearChat:
  assumes "action msg = JStr ''clearChat''"
    and "currentRoom (sessions st ws) = cur" and "truthy cur"
    and "toString cur = Inr key"
    and "rooms st key = Some members"
    and "toString (userId msg) = Inr user"
    and "toString (text_field msg) = Inr shortcut"
  shows "try_block ws rawMsg (Inr msg) random st =
     Inr (forEach_send (ClearChat cur (userId msg)
            (''Chat cleared by '' @ user @ '' using shortcut ('' @ shortcut @ '')''))
          members st)"
  using assms by (simp add: try_block_def get_def Let_def)

lemma try_block_clearChat_throws:
  assumes "action msg = JStr ''clearChat''"
    and "truthy (currentRoom (sessions st ws))"
    and "throws [userId msg, text_field msg]"
  shows "try_block ws rawMsg (Inr msg) random st = Inl (TypeError, st)"
  using assms
  by (auto simp: try_block_def Let_def isl_def split: sum.splits dest: toString_error(1))

lemma strict_eq_toString:
  "strict_eq p u \<Longrightarrow> \<exists>user. toString u = Inr user"
  by (cases p) (auto simp: strict_equals_def dest: toString_primitive)

lemma try_block_destroyRoom_passed:
  assumes "action msg = JStr ''destroyRoom''"
    and "currentRoom (sessions st ws) = cur" and "truthy cur"
    and "toString cur = Inr key"
    and "rooms st key = Some members"
    and "strict_eq (get (roomOwners st) key) (userId msg)"
    and "toString (userId msg) = Inr user"
  shows "try_block ws rawMsg (Inr msg) random st =
     Inr ((forEach_destroy
         (RoomDestroyed cur (''Room '' @ key @ '' has been destroyed by '' @ user)) members st)
       \<lparr>rooms := (rooms st)(key := None),
        roomOwners := (roomOwners st)(key := None)\<rparr>)"
  using assms(1-5,7) assms(6) by (simp add: try_block_def Let_def) (simp add: get_def)

lemma try_block_destroyRoom_owner:
  assumes "action msg = JStr ''destroyRoom''"
    and "currentRoom (sessions st ws) = cur" and "truthy cur"
    and "toString cur = Inr key"
    and "rooms st key = Some members"
    and "roomOwners st key = Some owner" and "strict_equals owner (userId msg)"
    and "toString (userId msg) = Inr user"
  shows "try_block ws rawMsg (Inr msg) random st =
     Inr ((forEach_destroy
         (RoomDestroyed cur (''Room '' @ key @ '' has been destroyed by '' @ user)) members st)
       \<lparr>rooms := (rooms st)(key := None),
        roomOwners := (roomOwners st)(key := None)\<rparr>)"
  using assms by (simp add: try_block_def get_def Let_def)

lemma destroyRoom_without_owner_record:
  assumes "action msg = JStr ''destroyRoom''"
    and "entry (roomOwners st) (currentRoom (sessions st ws)) = None"
    and "userId msg \<noteq> JUndefined"
  shows "on_message ws rawMsg (Inr msg) random st = st"
  using assms
  by (auto simp: on_message_def try_block_def get_def Let_def entry_def split: sum.splits)

lemma try_block_other_action:
  assumes "action msg \<noteq> JStr ''create''" and "action msg \<noteq> JStr ''join''"
    and "action msg \<noteq> JStr ''message''" and "action msg \<noteq> JStr ''deleteFile''"
    and "action msg \<noteq> JStr ''clearChat''" and "action msg \<noteq> JStr ''destroyRoom''"
  shows "try_block ws rawMsg (Inr msg) random st = Inr st"
  using assms by (simp add: try_block_def)

subsection \<open>The close handler\<close>

lemma on_close_member:
  assumes "currentRoom (sessions st ws) = cur" and "currentUser (sessions st ws) = user"
    and "truthy cur" and "toString cur = Inr key" and "rooms st key = Some members"
  shows "on_close ws st =
     (if truthy user
      then (case toString user of
              Inl err \<Rightarrow>
                Inl (err, st\<lparr>rooms := (rooms st)(key \<mapsto> filter (\<lambda>c. c \<noteq> ws) members)\<rparr>)
            | Inr name \<Rightarrow>
                Inr (st\<lparr>rooms := (rooms st)(key \<mapsto> filter (\<lambda>c. c \<noteq> ws) members),
                       calls := calls st @
                         map (\<lambda>c. Send c (System cur (name @ '' has left the chat'')))
                           (filter (\<lambda>c. readyState st c = OPEN)
                              (filter (\<lambda>c. c \<noteq> ws) members))\<rparr>))
      else Inr (st\<lparr>rooms := (rooms st)(key \<mapsto> filter (\<lambda>c. c \<noteq> ws) members)\<rparr>))"
  using assms by (simp add: on_close_def get_def Let_def forEach_send_eq split: sum.splits)


lemma on_close_roomOwners:
  assumes "on_close ws st = Inr st'"
  shows "roomOwners st' = roomOwners st"
  using assms
  by (auto simp: on_close_def Let_def forEach_send_fields
      split: if_splits sum.splits property.splits)

subsection \<open>Owner records\<close>

lemma on_message_join_roomOwners:
  assumes "action msg = JStr ''join''"
  shows "roomOwners (on_message ws rawMsg (Inr msg) random st) = roomOwners st"
  using assms
  by (simp add: on_message_def try_block_def Let_def get_def set_currentRoom_def
        set_currentUser_def forEach_join_fields split: option.splits sum.splits)

lemma on_message_broadcast_roomOwners:
  assumes "action msg \<in> {JStr ''message'', JStr ''deleteFile'', JStr ''clearChat''}"
  shows "roomOwners (on_message ws rawMsg (Inr msg) random st) = roomOwners st"
proof -
  consider "action msg = JStr ''message''" | "action msg = JStr ''deleteFile''"
    | "action msg = JStr ''clearChat''"
    using assms by blast
  then show ?thesis
  proof cases
    case 1
    then show ?thesis
      by (simp add: on_message_def try_block_def Let_def get_def forEach_send_fields
            split: option.splits sum.splits)
  next
    case 2
    then show ?thesis
      by (simp add: on_message_def try_block_def Let_def get_def forEach_send_fields
            split: option.splits sum.splits)
  next
    case 3
    then show ?thesis
      by (simp add: on_message_def try_block_def Let_def get_def forEach_send_fields
            split: option.splits sum.splits)
  qed
qed

lemma on_message_destroyRoom_roomOwners:
  assumes "action msg = JStr ''destroyRoom''"
    and "roomOwners (on_message ws rawMsg (Inr msg) random st) r \<noteq> roomOwners st r"
  shows "toString (currentRoom (sessions st ws)) = Inr r \<and>
         (\<exists>owner. roomOwners st r = Some owner \<and> strict_equals owner (userId msg)) \<and>
         roomOwners (on_message ws rawMsg (Inr msg) random st) r = None \<and>
         rooms (on_message ws rawMsg (Inr msg) random st) r = None"
  using assms
  by (auto simp: on_message_def try_block_def Let_def get_def forEach_destroy_fields
      split: option.splits if_splits sum.splits)

lemma on_message_roomOwners:
  assumes "roomOwners (on_message ws rawMsg parsed random st) r \<noteq> roomOwners st r"
  shows "\<exists>msg. parsed = Inr msg \<and>
       ((action msg = JStr ''create'' \<and> r = new_room_code random) \<or>
        (action msg = JStr ''destroyRoom'' \<and>
         toString (currentRoom (sessions st ws)) = Inr r \<and>
         (\<exists>owner. roomOwners st r = Some owner \<and> strict_equals owner (userId msg)) \<and>
         roomOwners (on_message ws rawMsg parsed random st) r = None \<and>
         rooms (on_message ws rawMsg parsed random st) r = None))"
proof (cases parsed)
  case (Inl err)
  then show ?thesis
    using assms by (simp add: on_message_def try_block_def)
next
  case (Inr msg)
  consider (create) "action msg = JStr ''create''"
    | (join) "action msg = JStr ''join''"
    | (broadcast) "action msg \<in> {JStr ''message'', JStr ''deleteFile'', JStr ''clearChat''}"
    | (destroy) "action msg = JStr ''destroyRoom''"
    | (other) "action msg \<noteq> JStr ''create''" "action msg \<noteq> JStr ''join''"
        "action msg \<noteq> JStr ''message''" "action msg \<noteq> JStr ''deleteFile''"
        "action msg \<noteq> JStr ''clearChat''" "action msg \<noteq> JStr ''destroyRoom''"
    by blast
  then show ?thesis
  proof cases
    case create
    then have "r = new_room_code random"
      using assms on_message_create(2)[OF create, of ws rawMsg random st]
      by (simp add: Inr split: if_splits)
    then show ?thesis using create Inr by simp
  next
    case join
    then show ?thesis
      using assms on_message_join_roomOwners[OF join] by (simp add: Inr)
  next
    case broadcast
    then show ?thesis
      using assms on_message_broadcast_roomOwners[OF broadcast] by (simp add: Inr)
  next
    case destroy
    then show ?thesis
      using on_message_destroyRoom_roomOwners[OF destroy] assms by (simp add: Inr)
  next
    case other
    then show ?thesis
      using assms try_block_other_action[OF other] by (simp add: Inr on_message_def)
  qed
qed

subsection \<open>Runs of join frames\<close>

lemma is_join_frame:
  "is_join code i \<Longrightarrow>
     \<exists>ws rawMsg msg random. i = Message ws rawMsg (Inr msg) random \<and>
        action msg = JStr ''join'' \<and> toString (room msg) = Inr code"
  by (induction code i rule: is_join.induct) auto

lemma run_joins:
  assumes "\<forall>i \<in> set joins. is_join code i" and "rooms st code = Some members"
  shows "\<exists>st'. run joins st = Inr st' \<and> rooms st' code = Some (members @ map conn_of joins) \<and>
           roomOwners st' = roomOwners st"
  using assms
proof (induction joins arbitrary: st members)
  case Nil
  then show ?case by simp
next
  case (Cons i joins)
  from Cons.prems(1) have "is_join code i" by simp
  then obtain ws rawMsg msg random where i: "i = Message ws rawMsg (Inr msg) random"
    and join: "action msg = JStr ''join''" and key: "toString (room msg) = Inr code"
    using is_join_frame by blast
  let ?st1 = "on_message ws rawMsg (Inr msg) random st"
  have st1: "rooms ?st1 code = Some (members @ [ws])" "roomOwners ?st1 = roomOwners st"
    using try_block_join_member[OF join key Cons.prems(2), of ws rawMsg random]
    by (simp_all add: on_message_def split: sum.splits)
  from Cons.prems(1) have rest: "\<forall>i \<in> set joins. is_join code i" by simp
  from Cons.IH[OF rest st1(1)] obtain st' where
    "run joins ?st1 = Inr st'" "rooms st' code = Some ((members @ [ws]) @ map conn_of joins)"
    "roomOwners st' = roomOwners ?st1"
    by blast
  then show ?case
    using st1(2) by (simp add: i)
qed

subsection \<open>What a join frame does\<close>

text \<open>
  A join frame whose \<^verbatim>\<open>room\<close> converts to a key that is not a property name of
  \<^verbatim>\<open>Object.prototype\<close> and whose \<^verbatim>\<open>userId\<close> converts to a string: a room without an
  entry is created empty and without an owner record; the handle is appended; the
  notice goes to every other open member and not to the joiner; and a room without
  an owner record is left alone by every destroyRoom frame that carries a \<^verbatim>\<open>userId\<close>.
\<close>

lemma join_appends_handle_and_notifies_others:
  assumes "action msg = JStr ''join''"
    and "toString (room msg) = Inr key" and "key \<notin> set Object_prototype"
    and "toString (userId msg) = Inr user"
    and "before = (case rooms st key of None \<Rightarrow> [] | Some members \<Rightarrow> members)"
    and "st' = on_message ws rawMsg (Inr msg) random st"
  shows "rooms st' = (rooms st)(key \<mapsto> before @ [ws]) \<and>
         roomOwners st' = roomOwners st \<and>
         sessions st' = (sessions st)(ws :=
            \<lparr>currentRoom = room msg, currentUser = userId msg\<rparr>) \<and>
         readyState st' = readyState st \<and>
         calls st' = calls st @
            map (\<lambda>c. Send c (System (room msg) (user @ '' has joined the chat'')))
              (filter (\<lambda>c. c \<noteq> ws \<and> readyState st c = OPEN) before) \<and>
         sent_to ws (new_calls st st') = [] \<and>
         (roomOwners st key = None \<longrightarrow>
            (\<forall>ws2 rawMsg2 msg2 random2.
               action msg2 = JStr ''destroyRoom'' \<and> userId msg2 \<noteq> JUndefined \<and>
               toString (currentRoom (sessions st' ws2)) = Inr key \<longrightarrow>
               on_message ws2 rawMsg2 (Inr msg2) random2 st' = st'))"
proof -
  let ?notice = "System (room msg) (user @ '' has joined the chat'')"
  let ?others = "filter (\<lambda>c. c \<noteq> ws \<and> readyState st c = OPEN) before"
  have st': "st' = st\<lparr>rooms := (rooms st)(key \<mapsto> before @ [ws]),
            sessions := (sessions st)(ws :=
               \<lparr>currentRoom = room msg, currentUser = userId msg\<rparr>),
            calls := calls st @ map (\<lambda>c. Send c ?notice) ?others\<rparr>"
  proof (cases "rooms st key")
    case None
    then show ?thesis
      using try_block_join_absent[OF assms(1,2) None assms(3), of ws rawMsg random]
        assms(4,5,6)
      by (simp add: on_message_def)
  next
    case (Some members)
    then show ?thesis
      using try_block_join_member[OF assms(1,2) Some, of ws rawMsg random] assms(4,5,6)
      by (simp add: on_message_def)
  qed
  have new: "new_calls st st' = map (\<lambda>c. Send c ?notice) ?others"
    by (rule new_calls_append) (simp add: st')
  have not_joiner: "sent_to ws (new_calls st st') = []"
    unfolding new sent_to_map_Send by simp
  have no_destroy: "on_message ws2 rawMsg2 (Inr msg2) random2 st' = st'"
    if "roomOwners st key = None"
      and "action msg2 = JStr ''destroyRoom''" and "userId msg2 \<noteq> JUndefined"
      and "toString (currentRoom (sessions st' ws2)) = Inr key"
    for ws2 rawMsg2 msg2 random2
  proof (rule destroyRoom_without_owner_record)
    show "action msg2 = JStr ''destroyRoom''" by fact
    show "userId msg2 \<noteq> JUndefined" by fact
    have "roomOwners st' = roomOwners st" by (simp add: st')
    then show "entry (roomOwners st') (currentRoom (sessions st' ws2)) = None"
      using that(1,4) by (simp add: entry_def)
  qed
  have fields: "rooms st' = (rooms st)(key \<mapsto> before @ [ws])"
    "roomOwners st' = roomOwners st"
    "sessions st' = (sessions st)(ws := \<lparr>currentRoom = room msg, currentUser = userId msg\<rparr>)"
    "readyState st' = readyState st"
    "calls st' = calls st @ map (\<lambda>c. Send c ?notice) ?others"
    by (simp_all add: st')
  show ?thesis
    using fields not_joiner no_destroy by blast
qed

text \<open>
  A room named like a property of \<^verbatim>\<open>Object.prototype\<close>: \<^verbatim>\<open>rooms[currentRoom]\<close> is
  truthy, nothing is created, \<^verbatim>\<open>push\<close> throws, and the session stays bound to the
  name, so that the close handler throws as well.
\<close>

lemma join_of_inherited_name:
  "try_block 1 raw_join_constructor
     (Inr (frame ''join'' (JStr ''ann'') (JStr ''constructor''))) 0 init
     = Inl (TypeError, constructor_room) \<and>
   rooms constructor_room = rooms init \<and>
   calls constructor_room = [] \<and>
   on_close 1 constructor_room = Inl (TypeError, constructor_room)"
  by (simp add: constructor_room_eq) (simp add: init_def on_close_def model_defs)

subsection \<open>Rounding to the nearest double\<close>

lemma round_even_le:
  assumes "y < of_int N + 1 / 2"
  shows "round_even y \<le> N"
proof (cases "\<lfloor>y\<rfloor> = N")
  case True
  then have "y - of_int \<lfloor>y\<rfloor> < 1 / 2"
    using assms by simp
  then show ?thesis
    using True by (simp add: round_even_def Let_def)
next
  case False
  have "y < of_int (N + 1)"
    using assms by simp
  then have "\<lfloor>y\<rfloor> < N + 1"
    by (simp only: floor_less_iff)
  then have "\<lfloor>y\<rfloor> + 1 \<le> N"
    using False by simp
  then show ?thesis
    by (simp add: round_even_def Let_def)
qed

lemma round_even_ge:
  assumes "of_int N \<le> y"
  shows "N \<le> round_even y"
proof -
  have "N \<le> \<lfloor>y\<rfloor>"
    using assms by (simp add: le_floor_iff)
  then show ?thesis
    by (simp add: round_even_def Let_def)
qed

lemma ulp_pos: "0 < ulp x"
  by (simp add: ulp_def)

lemma double_le:
  assumes "x < (of_int N + 1 / 2) * ulp x" and "0 \<le> N"
  shows "double x \<le> of_int N * ulp x"
proof (cases "x = 0")
  case True
  then show ?thesis
    using assms(2) ulp_pos[of x] by (simp add: double_def)
next
  case False
  have "x / ulp x < of_int N + 1 / 2"
    using assms(1) ulp_pos[of x] by (simp add: pos_divide_less_eq)
  then have "round_even (x / ulp x) \<le> N"
    by (rule round_even_le)
  then have "(of_int (round_even (x / ulp x)) :: rat) \<le> of_int N"
    by simp
  then have "of_int (round_even (x / ulp x)) * ulp x \<le> of_int N * ulp x"
    using ulp_pos[of x] by (simp add: mult_right_mono)
  then show ?thesis
    using False by (simp add: double_def)
qed

lemma double_ge:
  assumes "of_int N * ulp x \<le> x" and "N \<le> 0 \<or> x \<noteq> 0"
  shows "of_int N * ulp x \<le> double x"
proof (cases "x = 0")
  case True
  then have "N \<le> 0"
    using assms ulp_pos[of x] by (simp add: mult_le_0_iff)
  then have "of_int N * ulp x \<le> 0"
    using ulp_pos[of x] by (simp add: mult_le_0_iff)
  then show ?thesis
    using True by (simp add: double_def)
next
  case False
  have "of_int N \<le> x / ulp x"
    using assms(1) ulp_pos[of x] by (simp add: pos_le_divide_eq)
  then have "N \<le> round_even (x / ulp x)"
    by (rule round_even_ge)
  then have "(of_int N :: rat) \<le> of_int (round_even (x / ulp x))"
    by simp
  then have "of_int N * ulp x \<le> of_int (round_even (x / ulp x)) * ulp x"
    using ulp_pos[of x] by (simp add: mult_right_mono)
  then show ?thesis
    using False by (simp add: double_def)
qed

lemma binade_below:
  assumes "x < 131072"
  shows "binade x \<le> 16"
proof (cases "1 \<le> x")
  case True
  have "x < of_int 131072"
    using assms by simp
  then have "\<lfloor>x\<rfloor> < 131072"
    by (simp only: floor_less_iff)
  then have "bitlen \<lfloor>x\<rfloor> \<le> 17"
    by (simp add: bitlen_le_iff_power)
  then show ?thesis
    using True by (simp add: binade_def)
next
  case False
  then show ?thesis
    using bitlen_nonneg[of "\<lceil>1 / x\<rceil> - 1"] by (simp add: binade_def)
qed

lemma binade_above:
  assumes "65536 \<le> x"
  shows "16 \<le> binade x"
proof -
  have "of_int 65536 \<le> x"
    using assms by simp
  then have "65536 \<le> \<lfloor>x\<rfloor>"
    by (simp only: le_floor_iff)
  then have "17 \<le> bitlen \<lfloor>x\<rfloor>"
    by (simp add: bitlen_ge_iff_power)
  then show ?thesis
    using assms by (simp add: binade_def)
qed

lemma ulp_below:
  assumes "x < 131072"
  shows "\<exists>k\<ge>36. ulp x = 1 / 2 ^ k"
proof -
  define k where "k = nat (52 - max (binade x) (- 1022))"
  have "max (binade x) (- 1022) \<le> 16"
    using binade_below[OF assms] by simp
  then have k: "36 \<le> k" "max (binade x) (- 1022) - 52 = - int k"
    by (simp_all add: k_def)
  have "ulp x = 1 / 2 ^ k"
    unfolding ulp_def k(2) by (simp add: power_int_minus_divide)
  then show ?thesis
    using k(1) by blast
qed

lemma ulp_16:
  assumes "65536 \<le> x" and "x < 131072"
  shows "ulp x = 1 / 2 ^ 36"
proof -
  have "binade x = 16"
    using binade_below[OF assms(2)] binade_above[OF assms(1)] by simp
  then show ?thesis
    by (simp add: ulp_def power_int_minus_divide)
qed

lemma ulp_half:
  assumes "1 / 2 \<le> x" and "x < 1"
  shows "ulp x = 1 / 2 ^ 53"
proof -
  have "1 < 1 / x" "1 / x \<le> 2"
    using assms by (simp_all add: field_simps)
  then have "\<lceil>1 / x\<rceil> = 2"
    by (intro ceiling_unique) simp_all
  moreover have "bitlen 1 = 1"
    by (simp add: compute_bitlen)
  ultimately have "binade x = - 1"
    using assms(2) by (simp add: binade_def)
  then show ?thesis
    by (simp add: ulp_def power_int_minus_divide)
qed

text \<open>The largest double below 1.\<close>

lemma double_below_1:
  assumes "double r = r" and "r < 1"
  shows "r \<le> 1 - 1 / 2 ^ 53"
proof (cases "r < 1 / 2")
  case True
  then show ?thesis by simp
next
  case False
  then have ulp: "ulp r = 1 / 2 ^ 53"
    using ulp_half assms(2) by simp
  define n where "n = round_even (r / ulp r)"
  have r: "r = of_int n / 2 ^ 53"
    using assms(1) False by (simp add: double_def n_def ulp split: if_splits)
  then have "(of_int n :: rat) < 2 ^ 53"
    using assms(2) by (simp add: field_simps)
  then have "(of_int n :: rat) < of_int (2 ^ 53)"
    by simp
  then have "n < 2 ^ 53"
    by (simp only: of_int_less_iff)
  then have "n \<le> 2 ^ 53 - 1"
    by simp
  then have "(of_int n :: rat) \<le> of_int (2 ^ 53 - 1)"
    by (simp only: of_int_le_iff)
  then show ?thesis
    unfolding r by (simp add: field_simps)
qed

text \<open>
  The number of line 78 for a double \<open>0 \<le> r < 1\<close>: the product rounds to at most
  \<open>90000 - 2\<^sup>-\<^sup>3\<^sup>6\<close>, the sum to less than 100000.
\<close>

lemma floor_room_code:
  assumes "0 \<le> r" and "r < 1" and "double r = r"
  shows "10000 \<le> \<lfloor>double (10000 + double (r * 90000))\<rfloor> \<and>
         \<lfloor>double (10000 + double (r * 90000))\<rfloor> < 100000"
proof -
  define p where "p = r * 90000"
  define q where "q = double p"
  define s where "s = 10000 + q"
  have "r \<le> 1 - 1 / 2 ^ 53"
    using assms(3,2) by (rule double_below_1)
  then have p: "0 \<le> p" "p \<le> 90000 - 90000 / 2 ^ 53"
    using assms(1) by (simp_all add: p_def field_simps)
  have "of_int 0 * ulp p \<le> double p"
    by (rule double_ge) (use p(1) in simp_all)
  then have q0: "0 \<le> q"
    by (simp add: q_def)
  have q1: "q \<le> 90000 - 1 / 2 ^ 36"
  proof (cases "p < 65536")
    case True
    then obtain k where k: "36 \<le> k" "ulp p = 1 / 2 ^ k"
      using ulp_below[of p] by auto
    have "double p \<le> of_int (65536 * 2 ^ k) * ulp p"
    proof (rule double_le)
      have "(0 :: rat) < 1 / 2 / 2 ^ k"
        by simp
      then have "p < 65536 + 1 / 2 / 2 ^ k"
        using True by linarith
      also have "\<dots> = (of_int (65536 * 2 ^ k) + 1 / 2) * ulp p"
        by (simp add: k(2) field_simps)
      finally show "p < (of_int (65536 * 2 ^ k) + 1 / 2) * ulp p" .
      show "0 \<le> (65536 :: int) * 2 ^ k"
        by simp
    qed
    then have "q \<le> 65536"
      by (simp add: q_def k(2))
    then show ?thesis by simp
  next
    case False
    then have ulp: "ulp p = 1 / 2 ^ 36"
      using ulp_16[of p] p(2) by simp
    have "double p \<le> of_int (90000 * 2 ^ 36 - 1) * ulp p"
      by (rule double_le) (use p(2) ulp in simp_all)
    then show ?thesis
      by (simp add: q_def ulp)
  qed
  have s: "10000 \<le> s" "s \<le> 100000 - 1 / 2 ^ 36"
    using q0 q1 by (simp_all add: s_def)
  then have "s < 131072"
    by simp
  then obtain k where k: "36 \<le> k" "ulp s = 1 / 2 ^ k"
    using ulp_below[of s] by auto
  define u :: rat where "u = 1 / 2 ^ k"
  have "(2 :: rat) ^ 36 \<le> 2 ^ k"
    using k(1) by (rule power_increasing) simp
  then have "(1 :: rat) / 2 ^ k \<le> 1 / 2 ^ 36"
    by (intro divide_left_mono) simp_all
  then have u: "0 < u" "u \<le> 1 / 2 ^ 36" "ulp s = u"
    by (simp_all add: u_def k(2))
  have whole: "of_int (10000 * 2 ^ k) * u = 10000" "of_int (100000 * 2 ^ k - 1) * u = 100000 - u"
    by (simp_all add: u_def field_simps)
  have "of_int (10000 * 2 ^ k) * ulp s \<le> double s"
    by (rule double_ge) (use s(1) whole(1) u(3) in simp_all)
  then have low: "10000 \<le> double s"
    using whole(1) u(3) by simp
  have "double s \<le> of_int (100000 * 2 ^ k - 1) * ulp s"
  proof (rule double_le)
    have "s < 100000 - u + 1 / 2 * u"
      using s(2) u(1,2) by linarith
    also have "\<dots> = (of_int (100000 * 2 ^ k - 1) + 1 / 2) * ulp s"
      unfolding u(3) distrib_right whole(2) by simp
    finally show "s < (of_int (100000 * 2 ^ k - 1) + 1 / 2) * ulp s" .
    show "0 \<le> (100000 :: int) * 2 ^ k - 1"
      using one_le_power[of "2 :: int" k] by simp
  qed
  then have "double s \<le> 100000 - u"
    using whole(2) u(3) by simp
  then have high: "double s < 100000"
    using u(1) by linarith
  have "of_int 10000 \<le> double s"
    using low by simp
  then have "10000 \<le> \<lfloor>double s\<rfloor>"
    by (simp only: le_floor_iff)
  moreover have "double s < of_int 100000"
    using high by simp
  then have "\<lfloor>double s\<rfloor> < 100000"
    by (simp only: floor_less_iff)
  ultimately show ?thesis
    by (simp add: s_def q_def p_def)
qed

subsection \<open>What a create frame does\<close>

text \<open>
  A create frame whose \<^verbatim>\<open>userId\<close> converts to a string, for a draw that is a double
  \<open>0 \<le> random < 1\<close>: the code is a string of five decimal digits that denotes a
  number from 10000 to 99999; whatever the registry held under that code before, the
  room's member list becomes the issuing handle alone and its owner the frame's
  \<^verbatim>\<open>userId\<close>; the session is bound to the code; and the one call made is the
  roomCreated reply, carrying the code, to the sender.
\<close>

lemma create_registers_new_room:
  assumes "action msg = JStr ''create''"
    and "0 \<le> random" and "random < 1" and "double random = random"
    and "toString (userId msg) = Inr user"
  shows "length (new_room_code random) = 5 \<and>
         set (new_room_code random) \<subseteq> set ''0123456789'' \<and>
         10000 \<le> decimal_value (new_room_code random) \<and>
         decimal_value (new_room_code random) \<le> 99999 \<and>
         on_message ws rawMsg (Inr msg) random st =
           st\<lparr>rooms := (rooms st)(new_room_code random \<mapsto> [ws]),
              roomOwners := (roomOwners st)(new_room_code random \<mapsto> userId msg),
              sessions := (sessions st)(ws :=
                \<lparr>currentRoom = JStr (new_room_code random), currentUser = userId msg\<rparr>),
              calls := calls st @ [Send ws (RoomCreated (JStr (new_room_code random)))]\<rparr>"
proof -
  define z where "z = \<lfloor>double (10000 + double (random * 90000))\<rfloor>"
  let ?n = "nat z"
  have "10000 \<le> z" "z < 100000"
    unfolding z_def using floor_room_code[OF assms(2,3,4)] by blast+
  then have range: "10000 \<le> ?n" "?n < 100000"
    by linarith+
  have code: "new_room_code random = number_toString ?n"
    by (simp only: new_room_code_def z_def)
  have len: "length (new_room_code random) = 5"
    unfolding code using range by (rule length_number_toString_5)
  have digits: "set (new_room_code random) \<subseteq> set ''0123456789''"
    unfolding code by (rule number_toString_digits)
  have val: "decimal_value (new_room_code random) = ?n"
    unfolding code by (rule decimal_value_number_toString)
  have state: "on_message ws rawMsg (Inr msg) random st =
           st\<lparr>rooms := (rooms st)(new_room_code random \<mapsto> [ws]),
              roomOwners := (roomOwners st)(new_room_code random \<mapsto> userId msg),
              sessions := (sessions st)(ws :=
                \<lparr>currentRoom = JStr (new_room_code random), currentUser = userId msg\<rparr>),
              calls := calls st @ [Send ws (RoomCreated (JStr (new_room_code random)))]\<rparr>"
    using try_block_create[OF assms(1), of ws rawMsg random st] assms(5)
    by (simp add: on_message_def)
  show ?thesis
    using len digits val range state by simp
qed

text \<open>
  The draws \<open>150119987579 / 2\<^sup>5\<^sup>2\<close> and \<open>1501249915786025 / 2\<^sup>5\<^sup>2\<close> are doubles for
  which the rounding of the product and of the sum decides the code.
\<close>

lemma new_room_code_rounded:
  "double (150119987579 / 2 ^ 52) = 150119987579 / 2 ^ 52 \<and>
   \<lfloor>double (10000 + double (150119987579 / 2 ^ 52 * 90000))\<rfloor> = 10003 \<and>
   \<lfloor>(10000 :: rat) + 150119987579 / 2 ^ 52 * 90000\<rfloor> = 10002 \<and>
   double (1501249915786025 / 2 ^ 52) = 1501249915786025 / 2 ^ 52 \<and>
   \<lfloor>double (10000 + double (1501249915786025 / 2 ^ 52 * 90000))\<rfloor> = 40001 \<and>
   \<lfloor>(10000 :: rat) + 1501249915786025 / 2 ^ 52 * 90000\<rfloor> = 40000"
  by code_simp

subsection \<open>Frames whose console line throws\<close>

text \<open>
  A message frame whose \<^verbatim>\<open>text\<close> is an object with a \<^verbatim>\<open>toString\<close> property of its own
  throws on line 113, before the loop: nothing is sent. A connection that joined
  with such a \<^verbatim>\<open>userId\<close> has the join frame throw on line 95, after the push, and
  its close handler throws on line 191, after the filter.
\<close>

lemma message_with_unprintable_text:
  "try_block 1 raw_hello
     (Inr ((frame ''message'' (JStr ''ann'') JUndefined)\<lparr>text_field := stubborn\<rparr>)) 0 joined
     = Inl (TypeError, joined)"
  by (simp add: joined_eq stubborn_def try_block_def message_log_def frame_def Let_def)

lemma close_with_unprintable_user:
  "rooms (on_message 2 raw_join (Inr (frame ''join'' stubborn (JStr ''10000''))) 0 created)
     ''10000'' = Some [1, 2] \<and>
   new_calls created
     (on_message 2 raw_join (Inr (frame ''join'' stubborn (JStr ''10000''))) 0 created) = [] \<and>
   on_close 2 (on_message 2 raw_join (Inr (frame ''join'' stubborn (JStr ''10000''))) 0 created)
     = Inl (TypeError,
         (on_message 2 raw_join (Inr (frame ''join'' stubborn (JStr ''10000''))) 0 created)
           \<lparr>rooms := [''10000'' \<mapsto> [1]]\<rparr>)"
  by (simp add: created_eq stubborn_def model_defs on_close_def new_calls_def)

section \<open>The claims\<close>

text \<open>
  C1, as the code has it. A destroyRoom frame from a session bound to a room whose
  recorded owner is the frame's \<^verbatim>\<open>userId\<close>: every member whose handle is open gets the
  roomDestroyed notice exactly once (also when the list holds it more than once) and
  is closed; a member whose handle is not open gets nothing; afterwards no member's
  handle reports open, and the room's entry and its owner record are gone. (\<open>key\<close>
  and \<open>user\<close> name the strings that the room and the \<^verbatim>\<open>userId\<close> convert to; a
  \<^verbatim>\<open>userId\<close> that is \<^verbatim>\<open>===\<close> to the recorded owner is primitive and always converts.)
\<close>

theorem destroyRoom_by_owner:
  assumes "action msg = JStr ''destroyRoom''"
    and "currentRoom (sessions st ws) = cur" and "truthy cur"
    and "toString cur = Inr key"
    and "rooms st key = Some members"
    and "roomOwners st key = Some owner" and "strict_equals owner (userId msg)"
    and "toString (userId msg) = Inr user"
    and "st' = on_message ws rawMsg (Inr msg) random st"
  shows "(\<forall>c. sent_to c (new_calls st st') =
            (if c \<in> set members \<and> readyState st c = OPEN
             then [RoomDestroyed cur (''Room '' @ key @ '' has been destroyed by '' @ user)]
             else [])) \<and>
         (\<forall>c \<in> set members. readyState st' c \<noteq> OPEN) \<and>
         rooms st' = (rooms st)(key := None) \<and>
         roomOwners st' = (roomOwners st)(key := None)"
proof -
  let ?data = "RoomDestroyed cur (''Room '' @ key @ '' has been destroyed by '' @ user)"
  let ?loop = "forEach_destroy ?data members st"
  have st': "st' = ?loop\<lparr>rooms := (rooms st)(key := None),
                         roomOwners := (roomOwners st)(key := None)\<rparr>"
    using try_block_destroyRoom_owner[OF assms(1-8)] assms(9) by (simp add: on_message_def)
  have new: "new_calls st st' = concat (map (\<lambda>c. [Send c ?data, Close c])
       (first_occurrences (filter (\<lambda>c. readyState st c = OPEN) members)))"
    by (rule new_calls_append) (simp add: st' forEach_destroy_calls)
  have sent: "sent_to c (new_calls st st') =
            (if c \<in> set members \<and> readyState st c = OPEN then [?data] else [])" for c
    unfolding new sent_to_send_close
    by (simp add: count_list_distinct)
  have closed: "readyState st' c \<noteq> OPEN" if "c \<in> set members" for c
    using that by (simp add: st' forEach_destroy_readyState)
  show ?thesis
    using sent closed by (simp add: st')
qed

theorem destroyRoom_by_owner_witness:
  "sent_to 1 (new_calls joined destroyed) =
     [RoomDestroyed (JStr ''10000'') ''Room 10000 has been destroyed by ann''] \<and>
   sent_to 2 (new_calls joined destroyed) =
     [RoomDestroyed (JStr ''10000'') ''Room 10000 has been destroyed by ann''] \<and>
   readyState destroyed 1 \<noteq> OPEN \<and> readyState destroyed 2 \<noteq> OPEN \<and>
   rooms destroyed ''10000'' = None \<and> roomOwners destroyed ''10000'' = None"
proof -
  have a: "action (frame ''destroyRoom'' (JStr ''ann'') JUndefined) = JStr ''destroyRoom''"
    by (simp add: frame_def)
  have b: "currentRoom (sessions joined 1) = JStr ''10000''"
    by (simp add: joined_eq)
  have c: "truthy (JStr ''10000'')"
    by simp
  have k: "toString (JStr ''10000'') = Inr ''10000''"
    by simp
  have d: "rooms joined ''10000'' = Some [1, 2]"
    by (simp add: joined_eq)
  have e: "roomOwners joined ''10000'' = Some (JStr ''ann'')"
    by (simp add: joined_eq)
  have s: "strict_equals (JStr ''ann'') (userId (frame ''destroyRoom'' (JStr ''ann'') JUndefined))"
    by (simp add: frame_def strict_equals_def)
  have u: "toString (userId (frame ''destroyRoom'' (JStr ''ann'') JUndefined)) = Inr ''ann''"
    by (simp add: frame_def)
  have f: "readyState joined 1 = OPEN" "readyState joined 2 = OPEN"
    by (simp_all add: joined_eq)
  show ?thesis
    using destroyRoom_by_owner[OF a b c k d e s u destroyed_def] f
    by simp
qed

text \<open>
  C1 as stated fails: connection 2 is a member of room 10000 whose handle reports
  \<^verbatim>\<open>CLOSING\<close>; the owner destroys the room and connection 2 receives no roomDestroyed
  message.
\<close>

theorem destroyRoom_skips_member_that_is_not_open:
  "rooms half_closed ''10000'' = Some [1, 2] \<and>
   roomOwners half_closed ''10000'' = Some (JStr ''ann'') \<and>
   currentRoom (sessions half_closed 1) = JStr ''10000'' \<and>
   readyState half_closed 2 = CLOSING \<and>
   sent_to 2 (new_calls half_closed
     (on_message 1 raw_destroy (Inr (frame ''destroyRoom'' (JStr ''ann'') JUndefined)) 0
        half_closed)) = []"
  by (simp add: half_closed_eq model_defs new_calls_def)

text \<open>
  C2. A destroyRoom frame whose \<^verbatim>\<open>userId\<close> is not \<^verbatim>\<open>===\<close> to the owner recorded for
  the session's room does nothing at all: the \<^verbatim>\<open>try\<close> block ends without a throw and
  the state after the handler is the state before it (same member lists, same owner
  records, same sessions, same handles, no call on any handle).
\<close>

theorem destroyRoom_by_other_user_is_noop:
  assumes "action msg = JStr ''destroyRoom''"
    and "entry (roomOwners st) (currentRoom (sessions st ws)) = Some owner"
    and "\<not> strict_equals owner (userId msg)"
  shows "try_block ws rawMsg (Inr msg) random st = Inr st \<and>
         on_message ws rawMsg (Inr msg) random st = st"
  using assms
  by (auto simp: on_message_def try_block_def get_def Let_def entry_def split: sum.splits)

theorem destroyRoom_by_other_user_is_noop_witness:
  "try_block 2 raw_destroy_bob (Inr (frame ''destroyRoom'' (JStr ''bob'') JUndefined)) 0 joined
     = Inr joined \<and>
   on_message 2 raw_destroy_bob (Inr (frame ''destroyRoom'' (JStr ''bob'') JUndefined)) 0 joined
     = joined"
proof -
  have a: "action (frame ''destroyRoom'' (JStr ''bob'') JUndefined) = JStr ''destroyRoom''"
    by (simp add: frame_def)
  have b: "entry (roomOwners joined) (currentRoom (sessions joined 2)) = Some (JStr ''ann'')"
    by (simp add: joined_eq entry_def)
  have c: "\<not> strict_equals (JStr ''ann'')
             (userId (frame ''destroyRoom'' (JStr ''bob'') JUndefined))"
    by (simp add: frame_def strict_equals_def)
  show ?thesis
    by (rule destroyRoom_by_other_user_is_noop[OF a b c])
qed

text \<open>
  C3, as the code has it. A message frame on a session whose \<^verbatim>\<open>currentRoom\<close> is
  truthy and names a room with an entry in the registry, and whose logged fields
  convert to strings without error (line 110 to 114 write the \<^verbatim>\<open>userId\<close> with the
  \<^verbatim>\<open>text\<close>, or for a frame of type \<open>file\<close> with the \<^verbatim>\<open>filename\<close>, or the \<^verbatim>\<open>url\<close>
  when the \<^verbatim>\<open>filename\<close> is not truthy, to the console before the loop): the raw frame
  is sent once for each entry of the member list whose handle is open, in list order,
  the sender's entry included, and this is all the handler does; a handle receives
  it as many times as the list holds it; when the list holds no handle twice, every
  open member receives it exactly once and the number of deliveries is the number of
  open members.
\<close>

theorem message_goes_to_every_open_entry:
  assumes "action msg = JStr ''message''"
    and "currentRoom (sessions st ws) = cur" and "truthy cur"
    and "toString cur = Inr key"
    and "rooms st key = Some members"
    and "\<not> throws (message_log cur msg)"
    and "st' = on_message ws rawMsg (Inr msg) random st"
  shows "st' = st\<lparr>calls := calls st @
            map (\<lambda>c. Send c (Raw rawMsg)) (filter (\<lambda>c. readyState st c = OPEN) members)\<rparr> \<and>
         (\<forall>c. sent_to c (new_calls st st') =
            (if readyState st c = OPEN then replicate (count_list members c) (Raw rawMsg)
             else [])) \<and>
         (distinct members \<longrightarrow>
            (\<forall>c. sent_to c (new_calls st st') =
               (if c \<in> set members \<and> readyState st c = OPEN then [Raw rawMsg] else [])) \<and>
            length (new_calls st st') =
              card {c \<in> set members. readyState st c = OPEN})"
proof -
  let ?open = "filter (\<lambda>c. readyState st c = OPEN) members"
  have st': "st' = st\<lparr>calls := calls st @ map (\<lambda>c. Send c (Raw rawMsg)) ?open\<rparr>"
    using try_block_message[OF assms(1-5)] assms(6,7)
    by (simp add: on_message_def forEach_send_eq)
  have new: "new_calls st st' = map (\<lambda>c. Send c (Raw rawMsg)) ?open"
    by (rule new_calls_append) (simp add: st')
  have count: "count_list ?open c =
      (if readyState st c = OPEN then count_list members c else 0)" for c
    by (induction members) auto
  have sent: "sent_to c (new_calls st st') =
      (if readyState st c = OPEN then replicate (count_list members c) (Raw rawMsg) else [])" for c
    unfolding new sent_to_map_Send count by simp
  have once: "sent_to c (new_calls st st') =
      (if c \<in> set members \<and> readyState st c = OPEN then [Raw rawMsg] else [])"
    if "distinct members" for c
    unfolding sent using that by (simp add: count_list_distinct)
  have total: "length (new_calls st st') = card {c \<in> set members. readyState st c = OPEN}"
    if "distinct members"
  proof -
    have "distinct ?open" using that by simp
    then have "card (set ?open) = length ?open" by (rule distinct_card)
    then show ?thesis by (simp add: new)
  qed
  show ?thesis
    using st' sent once total by blast
qed

theorem message_goes_to_every_open_entry_witness:
  "on_message 1 raw_hello (Inr (frame ''message'' (JStr ''ann'') JUndefined)) 0 joined =
     joined\<lparr>calls := calls joined @ [Send 1 (Raw raw_hello), Send 2 (Raw raw_hello)]\<rparr> \<and>
   sent_to 1 (new_calls joined
     (on_message 1 raw_hello (Inr (frame ''message'' (JStr ''ann'') JUndefined)) 0 joined))
     = [Raw raw_hello] \<and>
   sent_to 2 (new_calls joined
     (on_message 1 raw_hello (Inr (frame ''message'' (JStr ''ann'') JUndefined)) 0 joined))
     = [Raw raw_hello] \<and>
   length (new_calls joined
     (on_message 1 raw_hello (Inr (frame ''message'' (JStr ''ann'') JUndefined)) 0 joined))
     = 2"
proof -
  have a: "action (frame ''message'' (JStr ''ann'') JUndefined) = JStr ''message''"
    by (simp add: frame_def)
  have b: "currentRoom (sessions joined 1) = JStr ''10000''"
    by (simp add: joined_eq)
  have c: "truthy (JStr ''10000'')"
    by simp
  have k: "toString (JStr ''10000'') = Inr ''10000''"
    by simp
  have d: "rooms joined ''10000'' = Some [1, 2]"
    by (simp add: joined_eq)
  have e: "\<not> throws (message_log (JStr ''10000'')
             (frame ''message'' (JStr ''ann'') JUndefined))"
    by (simp add: message_log_def frame_def)
  have f: "readyState joined = (\<lambda>_. OPEN)"
    by (simp add: joined_eq)
  have g: "distinct [1, 2 :: conn]"
    by simp
  have h: "{c. (c = Suc 0 \<or> c = 2)} = {1, 2 :: nat}"
    by auto
  let ?st' = "on_message 1 raw_hello (Inr (frame ''message'' (JStr ''ann'') JUndefined)) 0 joined"
  note every = message_goes_to_every_open_entry[OF a b c k d e refl, of raw_hello 0]
  have state: "?st' =
      joined\<lparr>calls := calls joined @ [Send 1 (Raw raw_hello), Send 2 (Raw raw_hello)]\<rparr>"
    using every by (simp add: f)
  have once: "sent_to x (new_calls joined ?st') =
      (if x \<in> set [1, 2] \<and> readyState joined x = OPEN then [Raw raw_hello] else [])" for x
    using every g by blast
  have to_1: "sent_to 1 (new_calls joined ?st') = [Raw raw_hello]"
    using once[of 1] by (simp add: f)
  have to_2: "sent_to 2 (new_calls joined ?st') = [Raw raw_hello]"
    using once[of 2] by (simp add: f)
  have "length (new_calls joined ?st') = card {x \<in> set [1, 2]. readyState joined x = OPEN}"
    using every g by blast
  then have total: "length (new_calls joined ?st') = 2"
    by (simp add: f h)
  show ?thesis
    using state to_1 to_2 total by blast
qed

text \<open>
  C3 as stated fails: after connection 2 has sent its join frame twice, the room has
  the two open members 1 and 2, and a message from connection 1 is delivered three
  times, twice of them to connection 2.
\<close>

theorem message_twice_to_handle_listed_twice:
  "rooms joined_twice ''10000'' = Some [1, 2, 2] \<and>
   readyState joined_twice 1 = OPEN \<and> readyState joined_twice 2 = OPEN \<and>
   currentRoom (sessions joined_twice 1) = JStr ''10000'' \<and>
   sent_to 2 (new_calls joined_twice
     (on_message 1 raw_hello (Inr (frame ''message'' (JStr ''ann'') JUndefined)) 0
        joined_twice)) = [Raw raw_hello, Raw raw_hello] \<and>
   length (new_calls joined_twice
     (on_message 1 raw_hello (Inr (frame ''message'' (JStr ''ann'') JUndefined)) 0
        joined_twice)) = 3"
  by (simp add: joined_twice_eq model_defs new_calls_def)

text \<open>
  C4. A room that a join created has no owner record, and the claim has it safe from
  every destroyRoom frame. On the code a frame without a \<^verbatim>\<open>userId\<close> destroys it:
  connection 1 joins the room \<open>lobby\<close>, which nobody created, so the room has that
  handle as its one member and no owner record; the destroyRoom frame of connection 1
  carries no \<^verbatim>\<open>userId\<close> and passes the test \<^verbatim>\<open>roomOwners[currentRoom] === userId\<close>
  (both sides are \<^verbatim>\<open>undefined\<close>); the member is sent the roomDestroyed notice and
  closed, and the room is gone. What a join frame does otherwise is the lemma
  \<open>join_appends_handle_and_notifies_others\<close>.
\<close>

theorem ownerless_room_destroyed_without_userId:
  "rooms init ''lobby'' = None \<and>
   rooms lobby ''lobby'' = Some [1] \<and>
   roomOwners lobby ''lobby'' = None \<and>
   rooms (on_message 1 raw_destroy_anonymous
            (Inr (frame ''destroyRoom'' JUndefined JUndefined)) 0 lobby) ''lobby'' = None \<and>
   new_calls lobby (on_message 1 raw_destroy_anonymous
            (Inr (frame ''destroyRoom'' JUndefined JUndefined)) 0 lobby) =
     [Send 1 (RoomDestroyed (JStr ''lobby'') ''Room lobby has been destroyed by undefined''),
      Close 1]"
  by (simp add: lobby_eq init_def model_defs new_calls_def)

text \<open>
  C5. The claim has every create frame answered with a roomCreated reply. On the code
  the frame \<^verbatim>\<open>{"action":"create","userId":{"toString":1}}\<close> on a fresh server is not:
  line 80 to 82 register room 10000 with connection 1 as its member and the frame's
  \<^verbatim>\<open>userId\<close> as its owner and bind the session, then the console line 84 converts
  the \<^verbatim>\<open>userId\<close> to a string, which throws a TypeError; the \<^verbatim>\<open>catch\<close> swallows it and
  \<^verbatim>\<open>ws.send\<close> on line 85 never runs. The room exists and its creator is never told
  its code. What a create frame does otherwise is the lemma
  \<open>create_registers_new_room\<close>.
\<close>

theorem create_with_unprintable_userId_gets_no_reply:
  "try_block 1 raw_create_stubborn (Inr (frame ''create'' stubborn JUndefined)) 0 init =
     Inl (TypeError, created_stubborn) \<and>
   rooms created_stubborn ''10000'' = Some [1] \<and>
   roomOwners created_stubborn ''10000'' = Some stubborn \<and>
   currentRoom (sessions created_stubborn 1) = JStr ''10000'' \<and>
   new_calls init created_stubborn = []"
proof -
  have "try_block 1 raw_create_stubborn (Inr (frame ''create'' stubborn JUndefined)) 0 init =
     Inl (TypeError, created_stubborn)"
    unfolding created_stubborn_eq
    by (simp add: stubborn_def init_def try_block_def get_def set_currentRoom_def
          set_currentUser_def frame_def Let_def new_room_code_0)
  then show ?thesis
    by (simp add: created_stubborn_eq new_calls_def init_def)
qed

text \<open>
  C6, as the code has it. One step of the server changes the owner record of a room
  code \<open>r\<close> in two cases only: a create frame whose draw gives the code \<open>r\<close>, which
  sets the record to the frame's \<^verbatim>\<open>userId\<close> and the member list to the creator alone,
  whether or not \<open>r\<close> was a live room; and a destroyRoom frame from a session bound to
  \<open>r\<close> whose \<^verbatim>\<open>userId\<close> is the recorded owner, which removes the record together with
  the room. Join, message, deleteFile, clearChat, a refused destroyRoom, any other
  frame and the end of a connection leave every owner record as it was.
\<close>

theorem owner_record_changes_only_on_create_or_destroy:
  assumes "step i st = Inr st'" and "roomOwners st' r \<noteq> roomOwners st r"
  shows "\<exists>ws rawMsg msg random. i = Message ws rawMsg (Inr msg) random \<and>
           ((action msg = JStr ''create'' \<and> r = new_room_code random \<and>
             roomOwners st' r = Some (userId msg) \<and> rooms st' r = Some [ws]) \<or>
            (action msg = JStr ''destroyRoom'' \<and>
             toString (currentRoom (sessions st ws)) = Inr r \<and>
             roomOwners st r = Some (userId msg) \<and>
             roomOwners st' r = None \<and> rooms st' r = None))"
proof (cases i)
  case (Message ws rawMsg parsed random)
  then have st': "st' = on_message ws rawMsg parsed random st"
    using assms(1) by simp
  from on_message_roomOwners[of ws rawMsg parsed random st r] assms(2)
  obtain msg where parsed: "parsed = Inr msg"
    and branch: "(action msg = JStr ''create'' \<and> r = new_room_code random) \<or>
        (action msg = JStr ''destroyRoom'' \<and>
         toString (currentRoom (sessions st ws)) = Inr r \<and>
         (\<exists>owner. roomOwners st r = Some owner \<and> strict_equals owner (userId msg)) \<and>
         roomOwners st' r = None \<and> rooms st' r = None)"
    unfolding st' by blast
  from branch show ?thesis
  proof
    assume create: "action msg = JStr ''create'' \<and> r = new_room_code random"
    then have "roomOwners st' r = Some (userId msg)" "rooms st' r = Some [ws]"
      using on_message_create[of msg ws rawMsg random st] by (simp_all add: st' parsed)
    then show ?thesis
      using create Message parsed by blast
  next
    assume destroy: "action msg = JStr ''destroyRoom'' \<and>
         toString (currentRoom (sessions st ws)) = Inr r \<and>
         (\<exists>owner. roomOwners st r = Some owner \<and> strict_equals owner (userId msg)) \<and>
         roomOwners st' r = None \<and> rooms st' r = None"
    then have "roomOwners st r = Some (userId msg)"
      by (auto simp: strict_equals_def)
    then show ?thesis
      using destroy Message parsed by blast
  qed
next
  case (Disconnect ws)
  then have "roomOwners st' = roomOwners st"
    using assms(1) on_close_roomOwners by (fastforce split: sum.splits)
  then show ?thesis
    using assms(2) by simp
qed

theorem owner_record_changes_only_on_create_or_destroy_witness:
  "\<exists>ws rawMsg msg random.
      Message 1 raw_destroy (Inr (frame ''destroyRoom'' (JStr ''ann'') JUndefined)) 0 =
        Message ws rawMsg (Inr msg) random \<and>
      ((action msg = JStr ''create'' \<and> ''10000'' = new_room_code random \<and>
        roomOwners destroyed ''10000'' = Some (userId msg) \<and>
        rooms destroyed ''10000'' = Some [ws]) \<or>
       (action msg = JStr ''destroyRoom'' \<and>
        toString (currentRoom (sessions joined ws)) = Inr ''10000'' \<and>
        roomOwners joined ''10000'' = Some (userId msg) \<and>
        roomOwners destroyed ''10000'' = None \<and> rooms destroyed ''10000'' = None))"
proof -
  have a: "step (Message 1 raw_destroy (Inr (frame ''destroyRoom'' (JStr ''ann'') JUndefined)) 0)
      joined = Inr destroyed"
    by (simp add: destroyed_def)
  have b: "roomOwners destroyed ''10000'' \<noteq> roomOwners joined ''10000''"
    by (simp add: destroyed_eq joined_eq)
  show ?thesis
    by (rule owner_record_changes_only_on_create_or_destroy[OF a b])
qed

text \<open>
  C6 as stated fails: room 10000 is live with owner \<open>ann\<close>; connection 3 creates a room
  as \<open>eve\<close> and draws the same code; the room stays in the registry and its owner
  record now reads \<open>eve\<close>.
\<close>

theorem second_create_replaces_owner:
  "rooms created ''10000'' = Some [1] \<and>
   roomOwners created ''10000'' = Some (JStr ''ann'') \<and>
   step (Message 3 raw_create_eve (Inr (frame ''create'' (JStr ''eve'') JUndefined)) 0) created
     = Inr created_again \<and>
   rooms created_again ''10000'' = Some [3] \<and>
   roomOwners created_again ''10000'' = Some (JStr ''eve'')"
proof -
  have "step (Message 3 raw_create_eve (Inr (frame ''create'' (JStr ''eve'') JUndefined)) 0)
      created = Inr created_again"
    by (simp add: created_again_def)
  moreover have "rooms created_again ''10000'' = Some [3]"
    "roomOwners created_again ''10000'' = Some (JStr ''eve'')"
    by (simp_all add: created_again_def created_eq model_defs new_room_code_0)
  ultimately show ?thesis
    by (simp add: created_eq)
qed

text \<open>
  C7, as the code has it. With \<open>open_members\<close> the entries of the target room's
  member list whose handle is open when the loop starts, in list order: the raw
  message, the deleteFile notice and the clearChat notice are sent to exactly
  \<open>open_members\<close>, in that order; the departure notice to the entries of
  \<open>open_members\<close> other than the leaving handle; the roomDestroyed notice to each
  handle of \<open>open_members\<close> once, at its first position, followed by its \<^verbatim>\<open>close\<close>;
  and the join notice to the entries of \<open>open_members\<close> other than the joiner, who
  is a member by then. An entry whose handle is not open is passed over: nothing is
  sent to it, and no loop throws. A handler that throws does so before its loop, in
  the conversion of a field to a string, and then sends nothing at all.
\<close>

theorem broadcasts_go_to_open_entries_in_list_order:
  assumes "toString target = Inr key" and "rooms st key = Some members"
    and "open_members = filter (\<lambda>c. readyState st c = OPEN) members"
  shows
   "(action msg = JStr ''join'' \<and> room msg = target \<longrightarrow>
       (case toString (userId msg) of
          Inl err \<Rightarrow> new_calls st (on_message ws rawMsg (Inr msg) random st) = []
        | Inr user \<Rightarrow>
            (\<exists>st'. try_block ws rawMsg (Inr msg) random st = Inr st' \<and>
               rooms st' key = Some (members @ [ws]) \<and>
               new_calls st st' =
                 map (\<lambda>c. Send c (System target (user @ '' has joined the chat'')))
                   (filter (\<lambda>c. c \<noteq> ws) open_members)))) \<and>
    (currentRoom (sessions st ws) = target \<and> truthy target \<longrightarrow>
       (action msg = JStr ''message'' \<longrightarrow>
          (if throws (message_log target msg)
           then new_calls st (on_message ws rawMsg (Inr msg) random st) = []
           else try_block ws rawMsg (Inr msg) random st =
              Inr (st\<lparr>calls := calls st @ map (\<lambda>c. Send c (Raw rawMsg)) open_members\<rparr>))) \<and>
       (action msg = JStr ''deleteFile'' \<longrightarrow>
          (if throws [userId msg, filename msg]
           then new_calls st (on_message ws rawMsg (Inr msg) random st) = []
           else try_block ws rawMsg (Inr msg) random st =
              Inr (st\<lparr>calls := calls st @
                map (\<lambda>c. Send c (DeleteFile target (userId msg) (url msg) (filename msg)))
                  open_members\<rparr>))) \<and>
       (action msg = JStr ''clearChat'' \<longrightarrow>
          (if throws [userId msg, text_field msg]
           then new_calls st (on_message ws rawMsg (Inr msg) random st) = []
           else \<exists>user shortcut.
              toString (userId msg) = Inr user \<and> toString (text_field msg) = Inr shortcut \<and>
              try_block ws rawMsg (Inr msg) random st =
                Inr (st\<lparr>calls := calls st @
                  map (\<lambda>c. Send c (ClearChat target (userId msg)
                         (''Chat cleared by '' @ user @ '' using shortcut ('' @
                          shortcut @ '')'')))
                    open_members\<rparr>))) \<and>
       (action msg = JStr ''destroyRoom'' \<and>
        strict_eq (get (roomOwners st) key) (userId msg) \<longrightarrow>
          (\<exists>st' user. toString (userId msg) = Inr user \<and>
             try_block ws rawMsg (Inr msg) random st = Inr st' \<and>
             new_calls st st' =
               concat (map (\<lambda>c. [Send c (RoomDestroyed target (''Room '' @ key @
                          '' has been destroyed by '' @ user)), Close c])
                 (first_occurrences open_members)))) \<and>
       (if truthy (currentUser (sessions st ws))
        then (case toString (currentUser (sessions st ws)) of
                Inl err \<Rightarrow> (\<exists>st'. on_close ws st = Inl (err, st') \<and> new_calls st st' = [])
              | Inr name \<Rightarrow>
                  (\<exists>st'. on_close ws st = Inr st' \<and>
                     new_calls st st' =
                       map (\<lambda>c. Send c (System target (name @ '' has left the chat'')))
                         (filter (\<lambda>c. c \<noteq> ws) open_members)))
        else (\<exists>st'. on_close ws st = Inr st' \<and> new_calls st st' = [])))"
proof -
  have join: "case toString (userId msg) of
          Inl err \<Rightarrow> new_calls st (on_message ws rawMsg (Inr msg) random st) = []
        | Inr user \<Rightarrow>
            (\<exists>st'. try_block ws rawMsg (Inr msg) random st = Inr st' \<and>
               rooms st' key = Some (members @ [ws]) \<and>
               new_calls st st' =
                 map (\<lambda>c. Send c (System target (user @ '' has joined the chat'')))
                   (filter (\<lambda>c. c \<noteq> ws) open_members))"
    if "action msg = JStr ''join''" and "room msg = target"
    using try_block_join_member[of msg key st members ws rawMsg random] that assms
    by (simp add: new_calls_def on_message_def filter_open_others split: sum.splits)
  have message: "if throws (message_log target msg)
           then new_calls st (on_message ws rawMsg (Inr msg) random st) = []
           else try_block ws rawMsg (Inr msg) random st =
              Inr (st\<lparr>calls := calls st @ map (\<lambda>c. Send c (Raw rawMsg)) open_members\<rparr>)"
    if "currentRoom (sessions st ws) = target" and "truthy target"
      and "action msg = JStr ''message''"
    using try_block_message[OF that(3,1,2) assms(1,2)] assms(3)
    by (simp add: forEach_send_eq new_calls_def on_message_def)
  have deleteFile: "if throws [userId msg, filename msg]
           then new_calls st (on_message ws rawMsg (Inr msg) random st) = []
           else try_block ws rawMsg (Inr msg) random st =
              Inr (st\<lparr>calls := calls st @
                map (\<lambda>c. Send c (DeleteFile target (userId msg) (url msg) (filename msg)))
                  open_members\<rparr>)"
    if "currentRoom (sessions st ws) = target" and "truthy target"
      and "action msg = JStr ''deleteFile''"
    using try_block_deleteFile[OF that(3,1,2) assms(1,2)] assms(3)
    by (simp add: forEach_send_eq new_calls_def on_message_def)
  have clearChat: "if throws [userId msg, text_field msg]
           then new_calls st (on_message ws rawMsg (Inr msg) random st) = []
           else \<exists>user shortcut.
              toString (userId msg) = Inr user \<and> toString (text_field msg) = Inr shortcut \<and>
              try_block ws rawMsg (Inr msg) random st =
                Inr (st\<lparr>calls := calls st @
                  map (\<lambda>c. Send c (ClearChat target (userId msg)
                         (''Chat cleared by '' @ user @ '' using shortcut ('' @
                          shortcut @ '')'')))
                    open_members\<rparr>)"
    if "currentRoom (sessions st ws) = target" and "truthy target"
      and "action msg = JStr ''clearChat''"
  proof (cases "throws [userId msg, text_field msg]")
    case True
    then show ?thesis
      using try_block_clearChat_throws[OF that(3) _ True, of st ws rawMsg random] that(1,2)
      by (simp add: new_calls_def on_message_def)
  next
    case False
    then obtain user shortcut where conv: "toString (userId msg) = Inr user"
        "toString (text_field msg) = Inr shortcut"
      by (cases "toString (userId msg)"; cases "toString (text_field msg)") simp_all
    show ?thesis
      using try_block_clearChat[OF that(3,1,2) assms(1,2) conv] assms(3) False conv
      by (simp add: forEach_send_eq)
  qed
  have destroy: "\<exists>st' user. toString (userId msg) = Inr user \<and>
             try_block ws rawMsg (Inr msg) random st = Inr st' \<and>
             new_calls st st' =
               concat (map (\<lambda>c. [Send c (RoomDestroyed target (''Room '' @ key @
                          '' has been destroyed by '' @ user)), Close c])
                 (first_occurrences open_members))"
    if "currentRoom (sessions st ws) = target" and "truthy target"
      and "action msg = JStr ''destroyRoom''"
      and "strict_eq (get (roomOwners st) key) (userId msg)"
  proof -
    from strict_eq_toString[OF that(4)] obtain user where user: "toString (userId msg) = Inr user"
      by blast
    show ?thesis
      using try_block_destroyRoom_passed[OF that(3,1,2) assms(1,2) that(4) user] assms(3) user
      by (simp add: new_calls_def forEach_destroy_calls)
  qed
  have leave: "if truthy (currentUser (sessions st ws))
        then (case toString (currentUser (sessions st ws)) of
                Inl err \<Rightarrow> (\<exists>st'. on_close ws st = Inl (err, st') \<and> new_calls st st' = [])
              | Inr name \<Rightarrow>
                  (\<exists>st'. on_close ws st = Inr st' \<and>
                     new_calls st st' =
                       map (\<lambda>c. Send c (System target (name @ '' has left the chat'')))
                         (filter (\<lambda>c. c \<noteq> ws) open_members)))
        else (\<exists>st'. on_close ws st = Inr st' \<and> new_calls st st' = [])"
    if "currentRoom (sessions st ws) = target" and "truthy target"
    using on_close_member[OF that(1) refl that(2) assms(1,2)] assms(3)
    by (simp add: new_calls_def filter_others_open split: sum.splits del: filter_filter)
  show ?thesis
    using join message deleteFile clearChat destroy leave by blast
qed

theorem broadcasts_go_to_open_entries_in_list_order_witness:
  "try_block 1 raw_hello (Inr (frame ''message'' (JStr ''ann'') JUndefined)) 0 half_closed =
     Inr (half_closed\<lparr>calls := calls half_closed @ [Send 1 (Raw raw_hello)]\<rparr>) \<and>
   try_block 1 raw_delete (Inr (frame ''deleteFile'' (JStr ''ann'') JUndefined)) 0 half_closed =
     Inr (half_closed\<lparr>calls := calls half_closed @
       [Send 1 (DeleteFile (JStr ''10000'') (JStr ''ann'') JUndefined JUndefined)]\<rparr>) \<and>
   try_block 1 raw_clear (Inr (frame ''clearChat'' (JStr ''ann'') JUndefined)) 0 half_closed =
     Inr (half_closed\<lparr>calls := calls half_closed @
       [Send 1 (ClearChat (JStr ''10000'') (JStr ''ann'')
          ''Chat cleared by ann using shortcut (undefined)'')]\<rparr>) \<and>
   (\<exists>st'. try_block 1 raw_destroy (Inr (frame ''destroyRoom'' (JStr ''ann'') JUndefined)) 0
             half_closed = Inr st' \<and>
      new_calls half_closed st' =
        [Send 1 (RoomDestroyed (JStr ''10000'') ''Room 10000 has been destroyed by ann''),
         Close 1]) \<and>
   (\<exists>st'. on_close 2 half_closed = Inr st' \<and>
      new_calls half_closed st' = [Send 1 (System (JStr ''10000'') ''bob has left the chat'')]) \<and>
   (\<exists>st'. try_block 3 raw_join_cat (Inr (frame ''join'' (JStr ''cat'') (JStr ''10000''))) 0
             half_closed = Inr st' \<and>
      rooms st' ''10000'' = Some [1, 2, 3] \<and>
      new_calls half_closed st' = [Send 1 (System (JStr ''10000'') ''cat has joined the chat'')])"
proof -
  have key: "toString (JStr ''10000'') = Inr ''10000''"
    by simp
  have room: "rooms half_closed ''10000'' = Some [1, 2]"
    by (simp add: half_closed_eq)
  have opened: "[1] = filter (\<lambda>c. readyState half_closed c = OPEN) [1, 2]"
    by (simp add: half_closed_eq)
  note all = broadcasts_go_to_open_entries_in_list_order[OF key room opened]
  have bound: "currentRoom (sessions half_closed 1) = JStr ''10000''"
    "currentRoom (sessions half_closed 2) = JStr ''10000''"
    "currentUser (sessions half_closed 2) = JStr ''bob''"
    "get (roomOwners half_closed) ''10000'' = Own (JStr ''ann'')"
    by (simp_all add: half_closed_eq get_def)
  have "try_block 1 raw_hello (Inr (frame ''message'' (JStr ''ann'') JUndefined)) 0 half_closed =
     Inr (half_closed\<lparr>calls := calls half_closed @ [Send 1 (Raw raw_hello)]\<rparr>)"
    using all[of "frame ''message'' (JStr ''ann'') JUndefined" 1 raw_hello 0] bound
    by (simp add: frame_def message_log_def)
  moreover have "try_block 1 raw_delete (Inr (frame ''deleteFile'' (JStr ''ann'') JUndefined)) 0
      half_closed =
     Inr (half_closed\<lparr>calls := calls half_closed @
       [Send 1 (DeleteFile (JStr ''10000'') (JStr ''ann'') JUndefined JUndefined)]\<rparr>)"
    using all[of "frame ''deleteFile'' (JStr ''ann'') JUndefined" 1 raw_delete 0] bound
    by (simp add: frame_def)
  moreover have "try_block 1 raw_clear (Inr (frame ''clearChat'' (JStr ''ann'') JUndefined)) 0
      half_closed =
     Inr (half_closed\<lparr>calls := calls half_closed @
       [Send 1 (ClearChat (JStr ''10000'') (JStr ''ann'')
          ''Chat cleared by ann using shortcut (undefined)'')]\<rparr>)"
    using all[of "frame ''clearChat'' (JStr ''ann'') JUndefined" 1 raw_clear 0] bound
    by (simp add: frame_def)
  moreover have "\<exists>st'. try_block 1 raw_destroy
        (Inr (frame ''destroyRoom'' (JStr ''ann'') JUndefined)) 0 half_closed = Inr st' \<and>
      new_calls half_closed st' =
        [Send 1 (RoomDestroyed (JStr ''10000'') ''Room 10000 has been destroyed by ann''),
         Close 1]"
    using all[of "frame ''destroyRoom'' (JStr ''ann'') JUndefined" 1 raw_destroy 0] bound
    by (simp add: frame_def strict_equals_def)
  moreover have "\<exists>st'. on_close 2 half_closed = Inr st' \<and>
      new_calls half_closed st' = [Send 1 (System (JStr ''10000'') ''bob has left the chat'')]"
    using all[of "frame ''message'' (JStr ''ann'') JUndefined" 2 raw_hello 0] bound
    by (simp add: frame_def)
  moreover have "\<exists>st'. try_block 3 raw_join_cat
        (Inr (frame ''join'' (JStr ''cat'') (JStr ''10000''))) 0 half_closed = Inr st' \<and>
      rooms st' ''10000'' = Some [1, 2, 3] \<and>
      new_calls half_closed st' = [Send 1 (System (JStr ''10000'') ''cat has joined the chat'')]"
    using all[of "frame ''join'' (JStr ''cat'') (JStr ''10000'')" 3 raw_join_cat 0]
    by (simp add: frame_def)
  ultimately show ?thesis by blast
qed

text \<open>
  C7 as stated fails for the join notice: when connection 2 joins room 10000 its
  handle is open and, at the time of the broadcast, in the member list, and the
  notice is sent to connection 1 only.
\<close>

theorem join_notice_skips_open_joiner:
  "rooms joined ''10000'' = Some [1, 2] \<and>
   readyState created 2 = OPEN \<and>
   new_calls created joined = [Send 1 (System (JStr ''10000'') ''bob has joined the chat'')] \<and>
   sent_to 2 (new_calls created joined) = []"
  by (simp add: joined_eq created_eq new_calls_def)




text \<open>
  C9, as the code has it. After a create frame on connection \<open>ws\<close> and any sequence
  of join frames for the new room, the run has not thrown and the member list is
  \<open>ws\<close> followed by the joining handles in the order of their frames: its length is
  the number of joins plus one. It holds no handle twice when the creator and the
  joining connections are pairwise different; nothing removes a handle that joins
  again.
\<close>

theorem joins_extend_member_list_in_order:
  assumes "action msg = JStr ''create''" and "code = new_room_code random"
    and "\<forall>i \<in> set joins. is_join code i"
  shows "\<exists>st' members.
           run (Message ws rawMsg (Inr msg) random # joins) st = Inr st' \<and>
           rooms st' code = Some members \<and>
           members = ws # map conn_of joins \<and>
           length members = length joins + 1 \<and>
           (distinct (ws # map conn_of joins) \<longrightarrow> distinct members)"
proof -
  let ?st1 = "on_message ws rawMsg (Inr msg) random st"
  have "rooms ?st1 code = Some [ws]"
    using on_message_create(1)[OF assms(1), of ws rawMsg random st] assms(2) by simp
  from run_joins[OF assms(3) this] obtain st' where
    "run joins ?st1 = Inr st'" "rooms st' code = Some ([ws] @ map conn_of joins)"
    by blast
  then show ?thesis by simp
qed

theorem joins_extend_member_list_in_order_witness:
  "\<exists>st'. run [Message 1 raw_create (Inr (frame ''create'' (JStr ''ann'') JUndefined)) 0,
              Message 2 raw_join (Inr (frame ''join'' (JStr ''bob'') (JStr ''10000''))) 0,
              Message 3 raw_join_cat (Inr (frame ''join'' (JStr ''cat'') (JStr ''10000''))) 0] init
           = Inr st' \<and>
         rooms st' ''10000'' = Some [1, 2, 3] \<and>
         distinct [1, 2, 3 :: conn]"
proof -
  have a: "action (frame ''create'' (JStr ''ann'') JUndefined) = JStr ''create''"
    by (simp add: frame_def)
  have b: "''10000'' = new_room_code 0"
    by (simp add: new_room_code_0)
  have c: "\<forall>i \<in> set [Message 2 raw_join (Inr (frame ''join'' (JStr ''bob'') (JStr ''10000''))) 0,
              Message 3 raw_join_cat (Inr (frame ''join'' (JStr ''cat'') (JStr ''10000''))) 0].
             is_join ''10000'' i"
    by (simp add: frame_def)
  show ?thesis
    using joins_extend_member_list_in_order[OF a b c, of 1 raw_create init] by simp
qed

text \<open>
  C9 as stated fails: connection 1 creates room 10000 and connection 2 sends its join
  frame twice; the member list then holds the handle of connection 2 twice.
\<close>

theorem second_join_lists_handle_twice:
  "run [Message 1 raw_create (Inr (frame ''create'' (JStr ''ann'') JUndefined)) 0,
        Message 2 raw_join (Inr (frame ''join'' (JStr ''bob'') (JStr ''10000''))) 0,
        Message 2 raw_join (Inr (frame ''join'' (JStr ''bob'') (JStr ''10000''))) 0] init
     = Inr joined_twice \<and>
   rooms joined_twice ''10000'' = Some [1, 2, 2] \<and>
   \<not> distinct [1, 2, 2 :: conn]"
proof -
  have "run [Message 1 raw_create (Inr (frame ''create'' (JStr ''ann'') JUndefined)) 0,
        Message 2 raw_join (Inr (frame ''join'' (JStr ''bob'') (JStr ''10000''))) 0,
        Message 2 raw_join (Inr (frame ''join'' (JStr ''bob'') (JStr ''10000''))) 0] init
     = Inr joined_twice"
    by (simp add: joined_twice_def joined_def created_def)
  moreover have "rooms joined_twice ''10000'' = Some [1, 2, 2]"
    by (simp add: joined_twice_eq)
  ultimately show ?thesis by simp
qed

text \<open>
  C10. On a session whose room (a truthy \<^verbatim>\<open>currentRoom\<close>) has no entry in \<^verbatim>\<open>rooms\<close>, a
  message, deleteFile, clearChat or destroyRoom frame leaves the whole state as it
  was: nothing is sent, both maps and every handle's \<^verbatim>\<open>readyState\<close> are unchanged.
  For the first three the \<^verbatim>\<open>try\<close> block throws a TypeError, which the \<^verbatim>\<open>catch\<close> of
  the handler swallows.
\<close>

theorem frame_for_absent_room_changes_nothing:
  assumes "truthy (currentRoom (sessions st ws))"
    and "entry (rooms st) (currentRoom (sessions st ws)) = None"
    and "action msg \<in>
      {JStr ''message'', JStr ''deleteFile'', JStr ''clearChat'', JStr ''destroyRoom''}"
  shows "on_message ws rawMsg (Inr msg) random st = st \<and>
         (action msg \<noteq> JStr ''destroyRoom'' \<longrightarrow>
            try_block ws rawMsg (Inr msg) random st = Inl (TypeError, st))"
proof -
  consider (message) "action msg = JStr ''message''"
    | (deleteFile) "action msg = JStr ''deleteFile''"
    | (clearChat) "action msg = JStr ''clearChat''"
    | (destroyRoom) "action msg = JStr ''destroyRoom''"
    using assms(3) by blast
  then show ?thesis
  proof cases
    case message
    then show ?thesis
      using assms(1,2)
      by (auto simp: on_message_def try_block_def get_def Let_def entry_def message_log_def
          split: sum.splits dest: toString_error(1))
  next
    case deleteFile
    then show ?thesis
      using assms(1,2)
      by (auto simp: on_message_def try_block_def get_def Let_def entry_def
          split: sum.splits dest: toString_error(1))
  next
    case clearChat
    then show ?thesis
      using assms(1,2)
      by (auto simp: on_message_def try_block_def get_def Let_def entry_def
          split: sum.splits dest: toString_error(1))
  next
    case destroyRoom
    then show ?thesis
      using assms(1,2)
      by (auto simp: on_message_def try_block_def get_def Let_def entry_def
          split: sum.splits dest: toString_error(1))
  qed
qed

theorem frame_for_absent_room_changes_nothing_witness:
  "on_message 2 raw_hello_bob (Inr (frame ''message'' (JStr ''bob'') JUndefined)) 0 destroyed
     = destroyed \<and>
   try_block 2 raw_hello_bob (Inr (frame ''message'' (JStr ''bob'') JUndefined)) 0 destroyed
     = Inl (TypeError, destroyed)"
proof -
  have a: "truthy (currentRoom (sessions destroyed 2))"
    by (simp add: destroyed_eq)
  have b: "entry (rooms destroyed) (currentRoom (sessions destroyed 2)) = None"
    by (simp add: destroyed_eq entry_def)
  have c: "action (frame ''message'' (JStr ''bob'') JUndefined) \<in>
      {JStr ''message'', JStr ''deleteFile'', JStr ''clearChat'', JStr ''destroyRoom''}"
    by (simp add: frame_def)
  show ?thesis
    using frame_for_absent_room_changes_nothing[OF a b c, of raw_hello_bob 0]
    by (simp add: frame_def)
qed

end
